theory Spec2Isabelle
  imports Main "HOL-Library.AList" "HOL-Library.Multiset"
begin

section \<open>Configuration of Kafka-Pixy (config/config.go)\<close>

text \<open>
  The Go package \<^verbatim>\<open>config\<close> builds the application configuration from a YAML document:
  every proxy block of the document is laid over a freshly built default record, and the
  result is validated. This theory embeds the data model, the default factory, the
  loader \<^verbatim>\<open>FromYAML\<close> and the two validators.

  Integers: the fields are Go \<^verbatim>\<open>int\<close> and \<^verbatim>\<open>time.Duration\<close> (an \<^verbatim>\<open>int64\<close> counting
  nanoseconds). The code only stores and compares them, and its own constants are far
  below \<open>2 ^ 63\<close>, so no operation of the code can wrap; they are modelled as \<open>int\<close>.
\<close>

subsection \<open>Constants and lookup tables\<close>

type_synonym Duration = int

definition Millisecond :: Duration where
  "Millisecond = 1000000"

definition Second :: Duration where
  "Second = 1000 * Millisecond"

definition defaultCompression :: string where
  "defaultCompression = ''snappy''"

definition defaultRequiredAcks :: string where
  "defaultRequiredAcks = ''wait_for_all''"

definition defaultKafkaVersion :: string where
  "defaultKafkaVersion = ''0.8.2.2''"

datatype CompressionCodec = CompressionNone | CompressionGZIP | CompressionSnappy | CompressionLZ4

datatype RequiredAcks = NoResponse | WaitForLocal | WaitForAll

datatype KafkaVersion = V0_8_2_2 | V0_9_0_0 | V0_9_0_1 | V0_10_0_0 | V0_10_0_1 | V0_10_1_0

text \<open>The three Go maps are only ever read; a key is looked up with \<open>map_of\<close>.\<close>

definition compressionCodecs :: "(string \<times> CompressionCodec) list" where
  "compressionCodecs =
     [(''none'', CompressionNone), (''gzip'', CompressionGZIP),
      (''snappy'', CompressionSnappy), (''lz4'', CompressionLZ4)]"

definition producerAcks :: "(string \<times> RequiredAcks) list" where
  "producerAcks =
     [(''no_response'', NoResponse), (''wait_for_local'', WaitForLocal),
      (''wait_for_all'', WaitForAll)]"

definition kafkaVersions :: "(string \<times> KafkaVersion) list" where
  "kafkaVersions =
     [(''0.8.2.2'', V0_8_2_2), (''0.9.0.0'', V0_9_0_0), (''0.9.0.1'', V0_9_0_1),
      (''0.10.0.0'', V0_10_0_0), (''0.10.0.1'', V0_10_0_1), (''0.10.1.0'', V0_10_1_0)]"

subsection \<open>The configuration records\<close>

text \<open>
  The four anonymous structs nested in \<^verbatim>\<open>Proxy\<close> are records of their own; a field
  \<^verbatim>\<open>p.Kafka.Version\<close> is \<open>Kafka_Version (Kafka p)\<close>. A Go \<^verbatim>\<open>[]string\<close> is a
  \<open>string list\<close> (\<^verbatim>\<open>nil\<close> and the empty slice are both \<open>[]\<close>).
\<close>

record Kafka_cfg =
  Kafka_SeedPeers :: "string list"
  Kafka_Version :: string

record ZooKeeper_cfg =
  ZooKeeper_SeedPeers :: "string list"
  ZooKeeper_Chroot :: string

record Producer_cfg =
  Producer_ChannelBufferSize :: int
  Producer_Compression :: string
  Producer_FlushBytes :: int
  Producer_FlushFrequency :: Duration
  Producer_RetryBackoff :: Duration
  Producer_RetryMax :: int
  Producer_RequiredAcks :: string
  Producer_ShutdownTimeout :: Duration

record Consumer_cfg =
  Consumer_AckTimeout :: Duration
  Consumer_ChannelBufferSize :: int
  Consumer_FetchBytes :: int
  Consumer_LongPollingTimeout :: Duration
  Consumer_OffsetsCommitInterval :: Duration
  Consumer_RebalanceDelay :: Duration
  Consumer_RegistrationTimeout :: Duration
  Consumer_RetryBackoff :: Duration

record Proxy =
  ClientID :: string
  Kafka :: Kafka_cfg
  ZooKeeper :: ZooKeeper_cfg
  Producer :: Producer_cfg
  Consumer :: Consumer_cfg

text \<open>
  \<^verbatim>\<open>App.Proxies\<close> is a Go \<^verbatim>\<open>map[string]*Proxy\<close>. It is an association list with
  distinct keys here: \<^verbatim>\<open>m[k] = v\<close> is \<open>AList.update k v\<close>, \<^verbatim>\<open>len(m) == 0\<close> is
  \<open>m = []\<close>, and \<^verbatim>\<open>m[k]\<close> is \<open>map_of m k\<close>. Every \<^verbatim>\<open>*Proxy\<close> stored is freshly
  allocated by \<^verbatim>\<open>defaultProxyWithClientID\<close>, so no two entries alias.
\<close>

record App =
  GRPCAddr :: string
  TCPAddr :: string
  UnixAddr :: string
  Proxies :: "(string \<times> Proxy) list"
  DefaultCluster :: string

subsection \<open>Errors\<close>

text \<open>
  \<^verbatim>\<open>errors.New\<close> and \<^verbatim>\<open>errors.Errorf\<close> give \<open>New\<close> with the formatted message
  (\<^verbatim>\<open>%v\<close> and \<^verbatim>\<open>%s\<close> of a Go string print the string itself); an error handed back by
  the YAML library is \<open>External\<close> with its message; \<^verbatim>\<open>errors.Wrap(err, msg)\<close> and
  \<^verbatim>\<open>errors.Wrapf\<close> give \<open>Wrap err msg\<close>. \<open>Error_msg\<close> is the text that the
  \<^verbatim>\<open>Error()\<close> method of \<^verbatim>\<open>github.com/pkg/errors\<close> prints for such a value.
\<close>

datatype error = New string | External string | Wrap error string

fun Error_msg :: "error \<Rightarrow> string" where
  "Error_msg (New m) = m"
| "Error_msg (External m) = m"
| "Error_msg (Wrap e m) = m @ '': '' @ Error_msg e"

subsection \<open>The default factory\<close>

definition newApp :: App where
  "newApp = \<lparr>GRPCAddr = ''0.0.0.0:19091'', TCPAddr = ''0.0.0.0:19092'', UnixAddr = '''',
             Proxies = [], DefaultCluster = ''''\<rparr>"

text \<open>
  \<^verbatim>\<open>defaultProxyWithClientID\<close> reads the process environment; \<open>getenv\<close> is
  \<^verbatim>\<open>os.Getenv\<close>, which returns the empty string for a variable that is not set.
\<close>

definition defaultProxyWithClientID :: "(string \<Rightarrow> string) \<Rightarrow> string \<Rightarrow> Proxy" where
  "defaultProxyWithClientID getenv clientID =
     (let versionStr = getenv ''KAFKA_VERSION'' in
      \<lparr>ClientID = clientID,
       Kafka = \<lparr>Kafka_SeedPeers = [''localhost:9092''],
                Kafka_Version = (if map_of kafkaVersions versionStr \<noteq> None then versionStr
                                 else defaultKafkaVersion)\<rparr>,
       ZooKeeper = \<lparr>ZooKeeper_SeedPeers = [''localhost:2181''], ZooKeeper_Chroot = ''''\<rparr>,
       Producer = \<lparr>Producer_ChannelBufferSize = 4096,
                   Producer_Compression = defaultCompression,
                   Producer_FlushBytes = 1024 * 1024,
                   Producer_FlushFrequency = 500 * Millisecond,
                   Producer_RetryBackoff = 10 * Second,
                   Producer_RetryMax = 6,
                   Producer_RequiredAcks = defaultRequiredAcks,
                   Producer_ShutdownTimeout = 30 * Second\<rparr>,
       Consumer = \<lparr>Consumer_AckTimeout = 15 * Second,
                   Consumer_ChannelBufferSize = 64,
                   Consumer_FetchBytes = 1024 * 1024,
                   Consumer_LongPollingTimeout = 3 * Second,
                   Consumer_OffsetsCommitInterval = 500 * Millisecond,
                   Consumer_RebalanceDelay = 250 * Millisecond,
                   Consumer_RegistrationTimeout = 20 * Second,
                   Consumer_RetryBackoff = 500 * Millisecond\<rparr>\<rparr>)"

subsection \<open>Validation of one proxy\<close>

text \<open>
  \<^verbatim>\<open>Proxy.validate\<close> returns \<^verbatim>\<open>nil\<close> (\<open>None\<close>) or the error of the first check that
  fails. The two \<^verbatim>\<open>switch\<close> statements without a tag are chains of conditions tried
  from the top.
\<close>

definition Proxy_validate :: "Proxy \<Rightarrow> error option" where
  "Proxy_validate p =
     (if map_of kafkaVersions (Kafka_Version (Kafka p)) = None then
        Some (New (''Bad kafka.version: '' @ Kafka_Version (Kafka p)))
      else if Producer_ChannelBufferSize (Producer p) \<le> 0 then
        Some (New ''producer.channel_buffer_size must be > 0'')
      else if Producer_FlushBytes (Producer p) < 0 then
        Some (New ''producer.flush_bytes must be >= 0'')
      else if Producer_FlushFrequency (Producer p) < 0 then
        Some (New ''producer.flush_frequency must be >= 0'')
      else if Producer_RetryBackoff (Producer p) \<le> 0 then
        Some (New ''producer.retry_backoff must be > 0'')
      else if Producer_RetryMax (Producer p) \<le> 0 then
        Some (New ''producer.retry_max must be > 0'')
      else if Producer_ShutdownTimeout (Producer p) < 0 then
        Some (New ''producer.shutdown_timeout must be >= 0'')
      else if map_of compressionCodecs (Producer_Compression (Producer p)) = None then
        Some (New (''Bad producer.compression: '' @ Producer_Compression (Producer p)))
      else if map_of producerAcks (Producer_RequiredAcks (Producer p)) = None then
        Some (New (''Bad producer.required_acks: '' @ Producer_RequiredAcks (Producer p)))
      else if Consumer_AckTimeout (Consumer p) \<ge> Consumer_RegistrationTimeout (Consumer p) then
        Some (New ''consumer.ack_timeout must be < consumer.registration_timeout'')
      else if Consumer_ChannelBufferSize (Consumer p) \<le> 0 then
        Some (New ''consumer.channel_buffer_size must be > 0'')
      else if Consumer_FetchBytes (Consumer p) \<le> 0 then
        Some (New ''consumer.fetch_bytes must be > 0'')
      else if Consumer_LongPollingTimeout (Consumer p) \<le> 0 then
        Some (New ''consumer.long_polling_timeout must be > 0'')
      else if Consumer_OffsetsCommitInterval (Consumer p) \<le> 0 then
        Some (New ''consumer.offsets_commit_interval must be > 0'')
      else if Consumer_RebalanceDelay (Consumer p) \<le> 0 then
        Some (New ''consumer.rebalance_delay must be > 0'')
      else if Consumer_RegistrationTimeout (Consumer p) \<le> 0 then
        Some (New ''consumer.registration_timeout must be > 0'')
      else if Consumer_RetryBackoff (Consumer p) \<le> 0 then
        Some (New ''consumer.retry_backoff must be > 0'')
      else None)"

subsection \<open>Validation of the application\<close>

text \<open>
  \<^verbatim>\<open>App.validate\<close> ranges over a Go map, whose iteration order is unspecified: every
  entry is visited once, in an order that may differ from run to run. The order is a
  parameter of the model: \<open>range_order seed m\<close> is the order in which the entries of \<open>m\<close>
  are visited under the choice sequence \<open>seed\<close>, each number picking the next entry among
  those not yet visited. Every seed gives a permutation of \<open>m\<close>, and every permutation
  is given by a seed (lemmas \<open>mset_range_order\<close> and \<open>range_order_complete\<close>).
\<close>

fun range_order :: "nat list \<Rightarrow> 'a list \<Rightarrow> 'a list" where
  "range_order [] xs = xs"
| "range_order (n # ns) xs =
     (if xs = [] then []
      else xs ! (n mod length xs) #
           range_order ns (take (n mod length xs) xs @ drop (Suc (n mod length xs)) xs))"

fun validate_each :: "(string \<times> Proxy) list \<Rightarrow> error option" where
  "validate_each [] = None"
| "validate_each ((cluster, proxyCfg) # rest) =
     (case Proxy_validate proxyCfg of
        Some err \<Rightarrow> Some (Wrap err (''invalid config, cluster='' @ cluster))
      | None \<Rightarrow> validate_each rest)"

definition App_validate :: "nat list \<Rightarrow> App \<Rightarrow> error option" where
  "App_validate seed a =
     (if Proxies a = [] then Some (New ''at least on proxy must be configured'')
      else validate_each (range_order seed (Proxies a)))"

subsection \<open>The YAML library as the loader sees it\<close>

text \<open>
  \<^verbatim>\<open>gopkg.in/yaml.v2\<close> is an external library. The loader uses three of its entry
  points, which are parameters of the model:
  \<^item> \<open>Unmarshal_proxyProb\<close>: \<^verbatim>\<open>yaml.Unmarshal(data, &prob)\<close> with \<^verbatim>\<open>prob\<close> a zero
    \<^verbatim>\<open>proxyProb\<close>, from the input \<open>'d\<close> to the decoded struct or an error message;
  \<^item> \<open>Marshal\<close>: \<^verbatim>\<open>yaml.Marshal(proxyItem.Value)\<close>, from a decoded value to its
    encoding \<open>'b\<close> or an error message;
  \<^item> \<open>Unmarshal_Proxy\<close>: \<^verbatim>\<open>yaml.Unmarshal(encodedProxyCfg, proxyCfg)\<close>, from an
    encoding and the record decoded onto, to the updated record or an error message.

  A value that the library decodes into an \<^verbatim>\<open>interface{}\<close> (a key or a value of a
  \<^verbatim>\<open>yaml.MapSlice\<close>) is a \<open>yval\<close>; a mapping inside it keeps the order of the
  document. Floating point scalars are left out.
\<close>

datatype yval =
    YNull
  | YBool bool
  | YInt int
  | YStr string
  | YSeq "yval list"
  | YMap "(yval \<times> yval) list"

text \<open>A \<^verbatim>\<open>yaml.MapSlice\<close> is a slice of \<^verbatim>\<open>MapItem{Key, Value}\<close>, here pairs.\<close>

type_synonym MapSlice = "(yval \<times> yval) list"

record proxyProb =
  proxyProb_Proxies :: MapSlice

record ('d, 'b) yaml =
  Unmarshal_proxyProb :: "'d \<Rightarrow> string + proxyProb"
  Marshal :: "yval \<Rightarrow> string + 'b"
  Unmarshal_Proxy :: "'b \<Rightarrow> Proxy \<Rightarrow> string + Proxy"

subsection \<open>The loader\<close>

text \<open>
  \<^verbatim>\<open>FromYAML\<close> returns a pair \<^verbatim>\<open>(*App, error)\<close>, or panics when re-encoding a block
  fails. \<open>merge_proxies\<close> is its \<^verbatim>\<open>for\<close> loop over \<^verbatim>\<open>prob.Proxies\<close>: \<open>Inl\<close> leaves
  the function (a \<^verbatim>\<open>return\<close> or the panic), \<open>Inr\<close> is the configuration after the
  loop. When the type assertion \<^verbatim>\<open>proxyItem.Key.(string)\<close> fails, \<^verbatim>\<open>cluster\<close> is the
  zero value of its type, the empty string, and that is what \<^verbatim>\<open>Errorf\<close> formats.
  \<open>clientID\<close> is the value of \<^verbatim>\<open>newClientID()\<close>, \<open>seed\<close> the iteration order of
  the validator's \<^verbatim>\<open>range\<close>.
\<close>

datatype outcome = Return "App option" "error option" | Panic string

fun merge_proxies ::
  "('d, 'b) yaml \<Rightarrow> (string \<Rightarrow> string) \<Rightarrow> string \<Rightarrow> MapSlice \<Rightarrow> App \<Rightarrow> outcome + App" where
  "merge_proxies Y getenv clientID [] appCfg = Inr appCfg"
| "merge_proxies Y getenv clientID ((Key, Value) # rest) appCfg =
     (case Key of
        YStr cluster \<Rightarrow>
          (case Marshal Y Value of
             Inl err \<Rightarrow> Inl (Panic err)
           | Inr encodedProxyCfg \<Rightarrow>
               (case Unmarshal_Proxy Y encodedProxyCfg (defaultProxyWithClientID getenv clientID) of
                  Inl err \<Rightarrow>
                    Inl (Return None
                      (Some (Wrap (External err) (''failed to parse proxy config, cluster='' @ cluster))))
                | Inr proxyCfg \<Rightarrow>
                    merge_proxies Y getenv clientID rest
                      (appCfg\<lparr>Proxies := AList.update cluster proxyCfg (Proxies appCfg),
                              DefaultCluster :=
                                (if DefaultCluster appCfg = '''' then cluster
                                 else DefaultCluster appCfg)\<rparr>)))
      | _ \<Rightarrow> (let cluster = '''' in Inl (Return None (Some (New (''invalid cluster, '' @ cluster))))))"

definition FromYAML ::
  "('d, 'b) yaml \<Rightarrow> (string \<Rightarrow> string) \<Rightarrow> string \<Rightarrow> nat list \<Rightarrow> 'd \<Rightarrow> outcome" where
  "FromYAML Y getenv clientID seed data =
     (case Unmarshal_proxyProb Y data of
        Inl err \<Rightarrow> Return None (Some (Wrap (External err) ''failed to parse config''))
      | Inr prob \<Rightarrow>
          (case merge_proxies Y getenv clientID (proxyProb_Proxies prob) newApp of
             Inl out \<Rightarrow> out
           | Inr appCfg \<Rightarrow>
               (case App_validate seed appCfg of
                  Some err \<Rightarrow> Return None (Some (Wrap err ''invalid config parameter''))
                | None \<Rightarrow> Return (Some appCfg) None)))"

subsection \<open>A model of decoding a document onto a struct\<close>

text \<open>
  The fields of \<^verbatim>\<open>Proxy\<close> and the keys under which their \<^verbatim>\<open>yaml:"..."\<close> tags file them:
  \<^verbatim>\<open>client_id\<close> at the top of a proxy block, every other field inside one of the four
  sections \<^verbatim>\<open>kafka\<close>, \<^verbatim>\<open>zoo_keeper\<close>, \<^verbatim>\<open>producer\<close> and \<^verbatim>\<open>consumer\<close>.
\<close>

datatype field =
    F_ClientID
  | F_Kafka_SeedPeers | F_Kafka_Version
  | F_ZooKeeper_SeedPeers | F_ZooKeeper_Chroot
  | F_Producer_ChannelBufferSize | F_Producer_Compression | F_Producer_FlushBytes
  | F_Producer_FlushFrequency | F_Producer_RetryBackoff | F_Producer_RetryMax
  | F_Producer_RequiredAcks | F_Producer_ShutdownTimeout
  | F_Consumer_AckTimeout | F_Consumer_ChannelBufferSize | F_Consumer_FetchBytes
  | F_Consumer_LongPollingTimeout | F_Consumer_OffsetsCommitInterval
  | F_Consumer_RebalanceDelay | F_Consumer_RegistrationTimeout | F_Consumer_RetryBackoff

definition Kafka_tags :: "(string \<times> field) list" where
  "Kafka_tags = [(''seed_peers'', F_Kafka_SeedPeers), (''version'', F_Kafka_Version)]"

definition ZooKeeper_tags :: "(string \<times> field) list" where
  "ZooKeeper_tags = [(''seed_peers'', F_ZooKeeper_SeedPeers), (''chroot'', F_ZooKeeper_Chroot)]"

definition Producer_tags :: "(string \<times> field) list" where
  "Producer_tags =
     [(''channel_buffer_size'', F_Producer_ChannelBufferSize),
      (''compression'', F_Producer_Compression),
      (''flush_bytes'', F_Producer_FlushBytes),
      (''flush_frequency'', F_Producer_FlushFrequency),
      (''retry_backoff'', F_Producer_RetryBackoff),
      (''retry_max'', F_Producer_RetryMax),
      (''required_acks'', F_Producer_RequiredAcks),
      (''shutdown_timeout'', F_Producer_ShutdownTimeout)]"

definition Consumer_tags :: "(string \<times> field) list" where
  "Consumer_tags =
     [(''ack_timeout'', F_Consumer_AckTimeout),
      (''channel_buffer_size'', F_Consumer_ChannelBufferSize),
      (''fetch_bytes'', F_Consumer_FetchBytes),
      (''long_polling_timeout'', F_Consumer_LongPollingTimeout),
      (''offsets_commit_interval'', F_Consumer_OffsetsCommitInterval),
      (''rebalance_delay'', F_Consumer_RebalanceDelay),
      (''registration_timeout'', F_Consumer_RegistrationTimeout),
      (''retry_backoff'', F_Consumer_RetryBackoff)]"

datatype sect = S_Kafka | S_ZooKeeper | S_Producer | S_Consumer

definition Proxy_sections :: "(string \<times> sect) list" where
  "Proxy_sections =
     [(''kafka'', S_Kafka), (''zoo_keeper'', S_ZooKeeper),
      (''producer'', S_Producer), (''consumer'', S_Consumer)]"

fun section_tags :: "sect \<Rightarrow> (string \<times> field) list" where
  "section_tags S_Kafka = Kafka_tags"
| "section_tags S_ZooKeeper = ZooKeeper_tags"
| "section_tags S_Producer = Producer_tags"
| "section_tags S_Consumer = Consumer_tags"

text \<open>
  The zero values of the structs: empty strings, \<^verbatim>\<open>nil\<close> slices and zero numbers.
  \<open>zero_section\<close> sets one of the four nested structs of a record to its zero value.
\<close>

definition zero_Kafka :: Kafka_cfg where
  "zero_Kafka = \<lparr>Kafka_SeedPeers = [], Kafka_Version = ''''\<rparr>"

definition zero_ZooKeeper :: ZooKeeper_cfg where
  "zero_ZooKeeper = \<lparr>ZooKeeper_SeedPeers = [], ZooKeeper_Chroot = ''''\<rparr>"

definition zero_Producer :: Producer_cfg where
  "zero_Producer =
     \<lparr>Producer_ChannelBufferSize = 0, Producer_Compression = '''', Producer_FlushBytes = 0,
      Producer_FlushFrequency = 0, Producer_RetryBackoff = 0, Producer_RetryMax = 0,
      Producer_RequiredAcks = '''', Producer_ShutdownTimeout = 0\<rparr>"

definition zero_Consumer :: Consumer_cfg where
  "zero_Consumer =
     \<lparr>Consumer_AckTimeout = 0, Consumer_ChannelBufferSize = 0, Consumer_FetchBytes = 0,
      Consumer_LongPollingTimeout = 0, Consumer_OffsetsCommitInterval = 0,
      Consumer_RebalanceDelay = 0, Consumer_RegistrationTimeout = 0,
      Consumer_RetryBackoff = 0\<rparr>"

definition zero_Proxy :: Proxy where
  "zero_Proxy =
     \<lparr>ClientID = '''', Kafka = zero_Kafka, ZooKeeper = zero_ZooKeeper,
      Producer = zero_Producer, Consumer = zero_Consumer\<rparr>"

fun zero_section :: "sect \<Rightarrow> Proxy \<Rightarrow> Proxy" where
  "zero_section S_Kafka p = p\<lparr>Kafka := zero_Kafka\<rparr>"
| "zero_section S_ZooKeeper p = p\<lparr>ZooKeeper := zero_ZooKeeper\<rparr>"
| "zero_section S_Producer p = p\<lparr>Producer := zero_Producer\<rparr>"
| "zero_section S_Consumer p = p\<lparr>Consumer := zero_Consumer\<rparr>"

text \<open>The Go type of a field, and a value of one of these types.\<close>

datatype ftype = T_string | T_int | T_Duration | T_strings

datatype fval = V_string string | V_int int | V_Duration Duration | V_strings "string list"

fun field_type :: "field \<Rightarrow> ftype" where
  "field_type F_ClientID = T_string"
| "field_type F_Kafka_SeedPeers = T_strings"
| "field_type F_Kafka_Version = T_string"
| "field_type F_ZooKeeper_SeedPeers = T_strings"
| "field_type F_ZooKeeper_Chroot = T_string"
| "field_type F_Producer_ChannelBufferSize = T_int"
| "field_type F_Producer_Compression = T_string"
| "field_type F_Producer_FlushBytes = T_int"
| "field_type F_Producer_FlushFrequency = T_Duration"
| "field_type F_Producer_RetryBackoff = T_Duration"
| "field_type F_Producer_RetryMax = T_int"
| "field_type F_Producer_RequiredAcks = T_string"
| "field_type F_Producer_ShutdownTimeout = T_Duration"
| "field_type F_Consumer_AckTimeout = T_Duration"
| "field_type F_Consumer_ChannelBufferSize = T_int"
| "field_type F_Consumer_FetchBytes = T_int"
| "field_type F_Consumer_LongPollingTimeout = T_Duration"
| "field_type F_Consumer_OffsetsCommitInterval = T_Duration"
| "field_type F_Consumer_RebalanceDelay = T_Duration"
| "field_type F_Consumer_RegistrationTimeout = T_Duration"
| "field_type F_Consumer_RetryBackoff = T_Duration"

fun field_value :: "field \<Rightarrow> Proxy \<Rightarrow> fval" where
  "field_value F_ClientID p = V_string (ClientID p)"
| "field_value F_Kafka_SeedPeers p = V_strings (Kafka_SeedPeers (Kafka p))"
| "field_value F_Kafka_Version p = V_string (Kafka_Version (Kafka p))"
| "field_value F_ZooKeeper_SeedPeers p = V_strings (ZooKeeper_SeedPeers (ZooKeeper p))"
| "field_value F_ZooKeeper_Chroot p = V_string (ZooKeeper_Chroot (ZooKeeper p))"
| "field_value F_Producer_ChannelBufferSize p = V_int (Producer_ChannelBufferSize (Producer p))"
| "field_value F_Producer_Compression p = V_string (Producer_Compression (Producer p))"
| "field_value F_Producer_FlushBytes p = V_int (Producer_FlushBytes (Producer p))"
| "field_value F_Producer_FlushFrequency p = V_Duration (Producer_FlushFrequency (Producer p))"
| "field_value F_Producer_RetryBackoff p = V_Duration (Producer_RetryBackoff (Producer p))"
| "field_value F_Producer_RetryMax p = V_int (Producer_RetryMax (Producer p))"
| "field_value F_Producer_RequiredAcks p = V_string (Producer_RequiredAcks (Producer p))"
| "field_value F_Producer_ShutdownTimeout p = V_Duration (Producer_ShutdownTimeout (Producer p))"
| "field_value F_Consumer_AckTimeout p = V_Duration (Consumer_AckTimeout (Consumer p))"
| "field_value F_Consumer_ChannelBufferSize p = V_int (Consumer_ChannelBufferSize (Consumer p))"
| "field_value F_Consumer_FetchBytes p = V_int (Consumer_FetchBytes (Consumer p))"
| "field_value F_Consumer_LongPollingTimeout p = V_Duration (Consumer_LongPollingTimeout (Consumer p))"
| "field_value F_Consumer_OffsetsCommitInterval p =
     V_Duration (Consumer_OffsetsCommitInterval (Consumer p))"
| "field_value F_Consumer_RebalanceDelay p = V_Duration (Consumer_RebalanceDelay (Consumer p))"
| "field_value F_Consumer_RegistrationTimeout p =
     V_Duration (Consumer_RegistrationTimeout (Consumer p))"
| "field_value F_Consumer_RetryBackoff p = V_Duration (Consumer_RetryBackoff (Consumer p))"

text \<open>
  How the library turns one node into a Go string, int, duration or string slice (the
  scalar syntax, \<^verbatim>\<open>time.ParseDuration\<close>, ranges) is not part of this model: the four
  conversions are parameters, and every result below holds for any of them.
\<close>

record scalars =
  to_string :: "yval \<Rightarrow> string + string"
  to_int :: "yval \<Rightarrow> string + int"
  to_Duration :: "yval \<Rightarrow> string + Duration"
  to_strings :: "yval \<Rightarrow> string + string list"

fun decode_at :: "scalars \<Rightarrow> ftype \<Rightarrow> yval \<Rightarrow> string + fval" where
  "decode_at S T_string v = map_sum id V_string (to_string S v)"
| "decode_at S T_int v = map_sum id V_int (to_int S v)"
| "decode_at S T_Duration v = map_sum id V_Duration (to_Duration S v)"
| "decode_at S T_strings v = map_sum id V_strings (to_strings S v)"

text \<open>
  Decoding one node into one field: the node is converted at the Go type of the field
  and stored there; a node that does not convert fails the decode.
\<close>

fun put :: "scalars \<Rightarrow> field \<Rightarrow> yval \<Rightarrow> Proxy \<Rightarrow> string + Proxy" where
  "put S F_ClientID v p =
     (case to_string S v of Inl err \<Rightarrow> Inl err
      | Inr x \<Rightarrow> Inr (p\<lparr>ClientID := x\<rparr>))"
| "put S F_Kafka_SeedPeers v p =
     (case to_strings S v of Inl err \<Rightarrow> Inl err
      | Inr x \<Rightarrow> Inr (p\<lparr>Kafka := (Kafka p)\<lparr>Kafka_SeedPeers := x\<rparr>\<rparr>))"
| "put S F_Kafka_Version v p =
     (case to_string S v of Inl err \<Rightarrow> Inl err
      | Inr x \<Rightarrow> Inr (p\<lparr>Kafka := (Kafka p)\<lparr>Kafka_Version := x\<rparr>\<rparr>))"
| "put S F_ZooKeeper_SeedPeers v p =
     (case to_strings S v of Inl err \<Rightarrow> Inl err
      | Inr x \<Rightarrow> Inr (p\<lparr>ZooKeeper := (ZooKeeper p)\<lparr>ZooKeeper_SeedPeers := x\<rparr>\<rparr>))"
| "put S F_ZooKeeper_Chroot v p =
     (case to_string S v of Inl err \<Rightarrow> Inl err
      | Inr x \<Rightarrow> Inr (p\<lparr>ZooKeeper := (ZooKeeper p)\<lparr>ZooKeeper_Chroot := x\<rparr>\<rparr>))"
| "put S F_Producer_ChannelBufferSize v p =
     (case to_int S v of Inl err \<Rightarrow> Inl err
      | Inr x \<Rightarrow> Inr (p\<lparr>Producer := (Producer p)\<lparr>Producer_ChannelBufferSize := x\<rparr>\<rparr>))"
| "put S F_Producer_Compression v p =
     (case to_string S v of Inl err \<Rightarrow> Inl err
      | Inr x \<Rightarrow> Inr (p\<lparr>Producer := (Producer p)\<lparr>Producer_Compression := x\<rparr>\<rparr>))"
| "put S F_Producer_FlushBytes v p =
     (case to_int S v of Inl err \<Rightarrow> Inl err
      | Inr x \<Rightarrow> Inr (p\<lparr>Producer := (Producer p)\<lparr>Producer_FlushBytes := x\<rparr>\<rparr>))"
| "put S F_Producer_FlushFrequency v p =
     (case to_Duration S v of Inl err \<Rightarrow> Inl err
      | Inr x \<Rightarrow> Inr (p\<lparr>Producer := (Producer p)\<lparr>Producer_FlushFrequency := x\<rparr>\<rparr>))"
| "put S F_Producer_RetryBackoff v p =
     (case to_Duration S v of Inl err \<Rightarrow> Inl err
      | Inr x \<Rightarrow> Inr (p\<lparr>Producer := (Producer p)\<lparr>Producer_RetryBackoff := x\<rparr>\<rparr>))"
| "put S F_Producer_RetryMax v p =
     (case to_int S v of Inl err \<Rightarrow> Inl err
      | Inr x \<Rightarrow> Inr (p\<lparr>Producer := (Producer p)\<lparr>Producer_RetryMax := x\<rparr>\<rparr>))"
| "put S F_Producer_RequiredAcks v p =
     (case to_string S v of Inl err \<Rightarrow> Inl err
      | Inr x \<Rightarrow> Inr (p\<lparr>Producer := (Producer p)\<lparr>Producer_RequiredAcks := x\<rparr>\<rparr>))"
| "put S F_Producer_ShutdownTimeout v p =
     (case to_Duration S v of Inl err \<Rightarrow> Inl err
      | Inr x \<Rightarrow> Inr (p\<lparr>Producer := (Producer p)\<lparr>Producer_ShutdownTimeout := x\<rparr>\<rparr>))"
| "put S F_Consumer_AckTimeout v p =
     (case to_Duration S v of Inl err \<Rightarrow> Inl err
      | Inr x \<Rightarrow> Inr (p\<lparr>Consumer := (Consumer p)\<lparr>Consumer_AckTimeout := x\<rparr>\<rparr>))"
| "put S F_Consumer_ChannelBufferSize v p =
     (case to_int S v of Inl err \<Rightarrow> Inl err
      | Inr x \<Rightarrow> Inr (p\<lparr>Consumer := (Consumer p)\<lparr>Consumer_ChannelBufferSize := x\<rparr>\<rparr>))"
| "put S F_Consumer_FetchBytes v p =
     (case to_int S v of Inl err \<Rightarrow> Inl err
      | Inr x \<Rightarrow> Inr (p\<lparr>Consumer := (Consumer p)\<lparr>Consumer_FetchBytes := x\<rparr>\<rparr>))"
| "put S F_Consumer_LongPollingTimeout v p =
     (case to_Duration S v of Inl err \<Rightarrow> Inl err
      | Inr x \<Rightarrow> Inr (p\<lparr>Consumer := (Consumer p)\<lparr>Consumer_LongPollingTimeout := x\<rparr>\<rparr>))"
| "put S F_Consumer_OffsetsCommitInterval v p =
     (case to_Duration S v of Inl err \<Rightarrow> Inl err
      | Inr x \<Rightarrow> Inr (p\<lparr>Consumer := (Consumer p)\<lparr>Consumer_OffsetsCommitInterval := x\<rparr>\<rparr>))"
| "put S F_Consumer_RebalanceDelay v p =
     (case to_Duration S v of Inl err \<Rightarrow> Inl err
      | Inr x \<Rightarrow> Inr (p\<lparr>Consumer := (Consumer p)\<lparr>Consumer_RebalanceDelay := x\<rparr>\<rparr>))"
| "put S F_Consumer_RegistrationTimeout v p =
     (case to_Duration S v of Inl err \<Rightarrow> Inl err
      | Inr x \<Rightarrow> Inr (p\<lparr>Consumer := (Consumer p)\<lparr>Consumer_RegistrationTimeout := x\<rparr>\<rparr>))"
| "put S F_Consumer_RetryBackoff v p =
     (case to_Duration S v of Inl err \<Rightarrow> Inl err
      | Inr x \<Rightarrow> Inr (p\<lparr>Consumer := (Consumer p)\<lparr>Consumer_RetryBackoff := x\<rparr>\<rparr>))"

text \<open>
  Modelled from the spec: \<^verbatim>\<open>yaml.Unmarshal\<close> onto a struct (library code, not in the
  repository). Section 4.3: the override document is decoded "onto the freshly defaulted
  record, overwriting only fields explicitly present in the override document. Fields
  absent from the override keep the default's value"; section 7: a field that cannot be
  applied ("malformed field, type mismatch") fails the decode. The entries of a mapping
  are taken in document order, and an entry whose key names no field of the struct sets
  nothing. The specification does not say what a null does where a struct is expected;
  the library sets the struct to its zero value there, and so does the model: a null
  section zeroes that section, a null block zeroes the whole record.
\<close>

fun decode_fields ::
  "scalars \<Rightarrow> (string \<times> field) list \<Rightarrow> (yval \<times> yval) list \<Rightarrow> Proxy \<Rightarrow> string + Proxy" where
  "decode_fields S tags [] p = Inr p"
| "decode_fields S tags ((k, v) # kvs) p =
     (case k of
        YStr name \<Rightarrow>
          (case map_of tags name of
             Some f \<Rightarrow>
               (case put S f v p of
                  Inl err \<Rightarrow> Inl err
                | Inr p' \<Rightarrow> decode_fields S tags kvs p')
           | None \<Rightarrow> decode_fields S tags kvs p)
      | _ \<Rightarrow> decode_fields S tags kvs p)"

fun decode_Proxy :: "scalars \<Rightarrow> (yval \<times> yval) list \<Rightarrow> Proxy \<Rightarrow> string + Proxy" where
  "decode_Proxy S [] p = Inr p"
| "decode_Proxy S ((k, v) # kvs) p =
     (case k of
        YStr name \<Rightarrow>
          (if name = ''client_id'' then
             (case put S F_ClientID v p of
                Inl err \<Rightarrow> Inl err
              | Inr p' \<Rightarrow> decode_Proxy S kvs p')
           else
             (case map_of Proxy_sections name of
                Some sec \<Rightarrow>
                  (case v of
                     YMap fs \<Rightarrow>
                       (case decode_fields S (section_tags sec) fs p of
                          Inl err \<Rightarrow> Inl err
                        | Inr p' \<Rightarrow> decode_Proxy S kvs p')
                   | YNull \<Rightarrow> decode_Proxy S kvs (zero_section sec p)
                   | _ \<Rightarrow> Inl (''cannot unmarshal into struct '' @ name))
              | None \<Rightarrow> decode_Proxy S kvs p))
      | _ \<Rightarrow> decode_Proxy S kvs p)"

definition unmarshal_Proxy :: "scalars \<Rightarrow> yval \<Rightarrow> Proxy \<Rightarrow> string + Proxy" where
  "unmarshal_Proxy S block p =
     (case block of
        YMap kvs \<Rightarrow> decode_Proxy S kvs p
      | YNull \<Rightarrow> Inr zero_Proxy
      | _ \<Rightarrow> Inl ''cannot unmarshal into config.Proxy'')"

text \<open>
  Modelled from the spec: \<^verbatim>\<open>yaml.Unmarshal\<close> of the whole document onto a
  \<^verbatim>\<open>proxyProb\<close> (library code, not in the repository). Section 6: "a root mapping
  containing a \<^verbatim>\<open>proxies\<close> key whose value is an ordered mapping from cluster name to a
  partial Proxy Configuration document". The struct has the single field \<^verbatim>\<open>Proxies\<close>,
  filed under \<^verbatim>\<open>proxies\<close>; every other key of the root sets nothing. The document is
  given as its root node: the text syntax of YAML is not modelled.

  A \<^verbatim>\<open>yaml.MapSlice\<close> is a Go slice of \<^verbatim>\<open>MapItem\<close> structs, so the library also
  takes a sequence for it, each element a mapping with the keys \<^verbatim>\<open>key\<close> and
  \<^verbatim>\<open>value\<close> (\<open>decode_MapItems\<close>); a field that an element leaves out, and a null
  element, are \<^verbatim>\<open>nil\<close>. A null sets the slice, or the whole struct, to its zero
  value.
\<close>

fun decode_MapItem :: "(yval \<times> yval) list \<Rightarrow> yval \<times> yval \<Rightarrow> yval \<times> yval" where
  "decode_MapItem [] item = item"
| "decode_MapItem ((k, v) # kvs) item =
     (if k = YStr ''key'' then decode_MapItem kvs (v, snd item)
      else if k = YStr ''value'' then decode_MapItem kvs (fst item, v)
      else decode_MapItem kvs item)"

fun decode_MapItems :: "yval list \<Rightarrow> string + MapSlice" where
  "decode_MapItems [] = Inr []"
| "decode_MapItems (e # es) =
     (case e of
        YMap kvs \<Rightarrow>
          (case decode_MapItems es of
             Inl err \<Rightarrow> Inl err
           | Inr items \<Rightarrow> Inr (decode_MapItem kvs (YNull, YNull) # items))
      | YNull \<Rightarrow>
          (case decode_MapItems es of
             Inl err \<Rightarrow> Inl err
           | Inr items \<Rightarrow> Inr ((YNull, YNull) # items))
      | _ \<Rightarrow> Inl ''cannot unmarshal into yaml.MapItem'')"

fun decode_proxyProb :: "(yval \<times> yval) list \<Rightarrow> proxyProb \<Rightarrow> string + proxyProb" where
  "decode_proxyProb [] prob = Inr prob"
| "decode_proxyProb ((k, v) # kvs) prob =
     (if k = YStr ''proxies'' then
        (case v of
           YMap items \<Rightarrow> decode_proxyProb kvs (prob\<lparr>proxyProb_Proxies := items\<rparr>)
         | YSeq es \<Rightarrow>
             (case decode_MapItems es of
                Inl err \<Rightarrow> Inl err
              | Inr items \<Rightarrow> decode_proxyProb kvs (prob\<lparr>proxyProb_Proxies := items\<rparr>))
         | YNull \<Rightarrow> decode_proxyProb kvs (prob\<lparr>proxyProb_Proxies := []\<rparr>)
         | _ \<Rightarrow> Inl ''cannot unmarshal into yaml.MapSlice'')
      else decode_proxyProb kvs prob)"

definition unmarshal_proxyProb :: "yval \<Rightarrow> string + proxyProb" where
  "unmarshal_proxyProb root =
     (case root of
        YMap kvs \<Rightarrow> decode_proxyProb kvs \<lparr>proxyProb_Proxies = []\<rparr>
      | YNull \<Rightarrow> Inr \<lparr>proxyProb_Proxies = []\<rparr>
      | _ \<Rightarrow> Inl ''cannot unmarshal into config.proxyProb'')"

text \<open>
  The library as modelled: the "neutral intermediate representation" of section 4.3 that
  \<^verbatim>\<open>Marshal\<close> produces is the node itself.
\<close>

definition yaml_model :: "scalars \<Rightarrow> (yval, yval) yaml" where
  "yaml_model S =
     \<lparr>Unmarshal_proxyProb = unmarshal_proxyProb,
      Marshal = Inr,
      Unmarshal_Proxy = unmarshal_Proxy S\<rparr>"

subsection \<open>The merge as the specification words it\<close>

text \<open>
  Section 9 describes the override as "a sparse mapping of field name to present value"
  with a "copy present fields only" merge. Where a document names a field is read off
  the \<^verbatim>\<open>yaml:"..."\<close> tags of the struct, field by field: \<open>field_key f\<close> is the
  section of \<open>f\<close>, if it lies in one, and its key there. \<open>given_to kvs f\<close> lists the
  nodes that the block \<open>kvs\<close> gives to \<open>f\<close>, in document order; \<open>override_of\<close> is
  the last of them, and \<open>None\<close> for a field that the block does not set.
  \<open>null_sections\<close> are the sections that a block gives as null.
\<close>

fun section_key :: "sect \<Rightarrow> string" where
  "section_key S_Kafka = ''kafka''"
| "section_key S_ZooKeeper = ''zoo_keeper''"
| "section_key S_Producer = ''producer''"
| "section_key S_Consumer = ''consumer''"

fun field_key :: "field \<Rightarrow> sect option \<times> string" where
  "field_key F_ClientID = (None, ''client_id'')"
| "field_key F_Kafka_SeedPeers = (Some S_Kafka, ''seed_peers'')"
| "field_key F_Kafka_Version = (Some S_Kafka, ''version'')"
| "field_key F_ZooKeeper_SeedPeers = (Some S_ZooKeeper, ''seed_peers'')"
| "field_key F_ZooKeeper_Chroot = (Some S_ZooKeeper, ''chroot'')"
| "field_key F_Producer_ChannelBufferSize = (Some S_Producer, ''channel_buffer_size'')"
| "field_key F_Producer_Compression = (Some S_Producer, ''compression'')"
| "field_key F_Producer_FlushBytes = (Some S_Producer, ''flush_bytes'')"
| "field_key F_Producer_FlushFrequency = (Some S_Producer, ''flush_frequency'')"
| "field_key F_Producer_RetryBackoff = (Some S_Producer, ''retry_backoff'')"
| "field_key F_Producer_RetryMax = (Some S_Producer, ''retry_max'')"
| "field_key F_Producer_RequiredAcks = (Some S_Producer, ''required_acks'')"
| "field_key F_Producer_ShutdownTimeout = (Some S_Producer, ''shutdown_timeout'')"
| "field_key F_Consumer_AckTimeout = (Some S_Consumer, ''ack_timeout'')"
| "field_key F_Consumer_ChannelBufferSize = (Some S_Consumer, ''channel_buffer_size'')"
| "field_key F_Consumer_FetchBytes = (Some S_Consumer, ''fetch_bytes'')"
| "field_key F_Consumer_LongPollingTimeout = (Some S_Consumer, ''long_polling_timeout'')"
| "field_key F_Consumer_OffsetsCommitInterval = (Some S_Consumer, ''offsets_commit_interval'')"
| "field_key F_Consumer_RebalanceDelay = (Some S_Consumer, ''rebalance_delay'')"
| "field_key F_Consumer_RegistrationTimeout = (Some S_Consumer, ''registration_timeout'')"
| "field_key F_Consumer_RetryBackoff = (Some S_Consumer, ''retry_backoff'')"

fun values_in :: "string \<Rightarrow> (yval \<times> yval) list \<Rightarrow> yval list" where
  "values_in key [] = []"
| "values_in key ((k, v) # kvs) =
     (if k = YStr key then v # values_in key kvs else values_in key kvs)"

fun fields_in :: "string \<Rightarrow> yval \<Rightarrow> yval list" where
  "fields_in key (YMap fs) = values_in key fs"
| "fields_in key _ = []"

definition given_to :: "(yval \<times> yval) list \<Rightarrow> field \<Rightarrow> yval list" where
  "given_to kvs f =
     (case field_key f of
        (None, key) \<Rightarrow> values_in key kvs
      | (Some sec, key) \<Rightarrow> concat (map (fields_in key) (values_in (section_key sec) kvs)))"

definition override_of :: "(yval \<times> yval) list \<Rightarrow> field \<Rightarrow> yval option" where
  "override_of kvs f = (if given_to kvs f = [] then None else Some (last (given_to kvs f)))"

definition null_sections :: "(yval \<times> yval) list \<Rightarrow> sect list" where
  "null_sections kvs =
     filter (\<lambda>sec. YNull \<in> set (values_in (section_key sec) kvs))
       [S_Kafka, S_ZooKeeper, S_Producer, S_Consumer]"

text \<open>
  The block that a document gives last to a cluster name: a later entry of
  \<^verbatim>\<open>prob.Proxies\<close> with the same key replaces the map entry of an earlier one.
\<close>

definition block_of :: "MapSlice \<Rightarrow> string \<Rightarrow> yval option" where
  "block_of items cluster = map_of (rev items) (YStr cluster)"

text \<open>The first cluster name that is not the empty string, in document order.\<close>

fun first_named :: "MapSlice \<Rightarrow> string" where
  "first_named [] = ''''"
| "first_named ((YStr cluster, v) # rest) = (if cluster = '''' then first_named rest else cluster)"
| "first_named (_ # rest) = first_named rest"

subsection \<open>The validation rules as the specification lists them\<close>

text \<open>
  Section 4.4 lists the per-proxy checks "evaluated in this fixed order (first failing
  check wins)". \<open>spec_checks\<close> is that list, from its words: each entry is the
  requirement and the error reported when it does not hold. \<open>first_violation\<close> is the
  error of the first requirement of the list that a proxy does not meet.
\<close>

definition supported_versions :: "string set" where
  "supported_versions =
     {''0.8.2.2'', ''0.9.0.0'', ''0.9.0.1'', ''0.10.0.0'', ''0.10.0.1'', ''0.10.1.0''}"

definition supported_compressions :: "string set" where
  "supported_compressions = {''none'', ''gzip'', ''snappy'', ''lz4''}"

definition supported_acks :: "string set" where
  "supported_acks = {''no_response'', ''wait_for_local'', ''wait_for_all''}"

definition spec_checks :: "((Proxy \<Rightarrow> bool) \<times> (Proxy \<Rightarrow> error)) list" where
  "spec_checks =
     [(\<lambda>p. Kafka_Version (Kafka p) \<in> supported_versions,
       \<lambda>p. New (''Bad kafka.version: '' @ Kafka_Version (Kafka p))),
      (\<lambda>p. Producer_ChannelBufferSize (Producer p) > 0,
       \<lambda>p. New ''producer.channel_buffer_size must be > 0''),
      (\<lambda>p. Producer_FlushBytes (Producer p) \<ge> 0,
       \<lambda>p. New ''producer.flush_bytes must be >= 0''),
      (\<lambda>p. Producer_FlushFrequency (Producer p) \<ge> 0,
       \<lambda>p. New ''producer.flush_frequency must be >= 0''),
      (\<lambda>p. Producer_RetryBackoff (Producer p) > 0,
       \<lambda>p. New ''producer.retry_backoff must be > 0''),
      (\<lambda>p. Producer_RetryMax (Producer p) > 0,
       \<lambda>p. New ''producer.retry_max must be > 0''),
      (\<lambda>p. Producer_ShutdownTimeout (Producer p) \<ge> 0,
       \<lambda>p. New ''producer.shutdown_timeout must be >= 0''),
      (\<lambda>p. Producer_Compression (Producer p) \<in> supported_compressions,
       \<lambda>p. New (''Bad producer.compression: '' @ Producer_Compression (Producer p))),
      (\<lambda>p. Producer_RequiredAcks (Producer p) \<in> supported_acks,
       \<lambda>p. New (''Bad producer.required_acks: '' @ Producer_RequiredAcks (Producer p))),
      (\<lambda>p. Consumer_AckTimeout (Consumer p) < Consumer_RegistrationTimeout (Consumer p),
       \<lambda>p. New ''consumer.ack_timeout must be < consumer.registration_timeout''),
      (\<lambda>p. Consumer_ChannelBufferSize (Consumer p) > 0,
       \<lambda>p. New ''consumer.channel_buffer_size must be > 0''),
      (\<lambda>p. Consumer_FetchBytes (Consumer p) > 0,
       \<lambda>p. New ''consumer.fetch_bytes must be > 0''),
      (\<lambda>p. Consumer_LongPollingTimeout (Consumer p) > 0,
       \<lambda>p. New ''consumer.long_polling_timeout must be > 0''),
      (\<lambda>p. Consumer_OffsetsCommitInterval (Consumer p) > 0,
       \<lambda>p. New ''consumer.offsets_commit_interval must be > 0''),
      (\<lambda>p. Consumer_RebalanceDelay (Consumer p) > 0,
       \<lambda>p. New ''consumer.rebalance_delay must be > 0''),
      (\<lambda>p. Consumer_RegistrationTimeout (Consumer p) > 0,
       \<lambda>p. New ''consumer.registration_timeout must be > 0''),
      (\<lambda>p. Consumer_RetryBackoff (Consumer p) > 0,
       \<lambda>p. New ''consumer.retry_backoff must be > 0'')]"

fun first_failing :: "((Proxy \<Rightarrow> bool) \<times> (Proxy \<Rightarrow> error)) list \<Rightarrow> Proxy \<Rightarrow> error option" where
  "first_failing [] p = None"
| "first_failing ((holds, err) # checks) p =
     (if holds p then first_failing checks p else Some (err p))"

definition first_violation :: "Proxy \<Rightarrow> error option" where
  "first_violation p = first_failing spec_checks p"

text \<open>The nine checks that the specification orders before the acknowledgment timeout.\<close>

definition earlier_checks_pass :: "Proxy \<Rightarrow> bool" where
  "earlier_checks_pass p = (first_failing (take 9 spec_checks) p = None)"

subsection \<open>Sample inputs\<close>

text \<open>
  One choice of the four conversions, for evaluating the model on concrete documents: a
  string node is a string, an integer node is an int or a duration in nanoseconds, a
  sequence of string nodes is a string slice, and a null is the zero value.
\<close>

fun strings_of :: "yval list \<Rightarrow> string + string list" where
  "strings_of [] = Inr []"
| "strings_of (YStr s # vs) =
     (case strings_of vs of Inl err \<Rightarrow> Inl err | Inr ss \<Rightarrow> Inr (s # ss))"
| "strings_of (_ # vs) = Inl ''cannot unmarshal into string''"

definition sample_scalars :: scalars where
  "sample_scalars =
     \<lparr>to_string =
        (\<lambda>v. case v of YStr s \<Rightarrow> Inr s | YNull \<Rightarrow> Inr ''''
              | _ \<Rightarrow> Inl ''cannot unmarshal into string''),
      to_int =
        (\<lambda>v. case v of YInt n \<Rightarrow> Inr n | YNull \<Rightarrow> Inr 0
              | _ \<Rightarrow> Inl ''cannot unmarshal into int''),
      to_Duration =
        (\<lambda>v. case v of YInt n \<Rightarrow> Inr n | YNull \<Rightarrow> Inr 0
              | _ \<Rightarrow> Inl ''cannot unmarshal into time.Duration''),
      to_strings =
        (\<lambda>v. case v of YSeq vs \<Rightarrow> strings_of vs | YNull \<Rightarrow> Inr []
              | _ \<Rightarrow> Inl ''cannot unmarshal into []string'')\<rparr>"

text \<open>An environment in which no variable is set.\<close>

definition no_env :: "string \<Rightarrow> string" where
  "no_env name = ''''"

subsection \<open>Auxiliary: a decode as a run of field assignments\<close>

text \<open>
  The field assignments that the decoder makes for a block, in the order in which it
  makes them, and their application in that order, stopping at the first that fails.
\<close>

fun section_assignments :: "(string \<times> field) list \<Rightarrow> (yval \<times> yval) list \<Rightarrow> (field \<times> yval) list" where
  "section_assignments tags [] = []"
| "section_assignments tags ((k, v) # kvs) =
     (case k of
        YStr name \<Rightarrow>
          (case map_of tags name of
             Some f \<Rightarrow> (f, v) # section_assignments tags kvs
           | None \<Rightarrow> section_assignments tags kvs)
      | _ \<Rightarrow> section_assignments tags kvs)"

fun assignments :: "(yval \<times> yval) list \<Rightarrow> (field \<times> yval) list" where
  "assignments [] = []"
| "assignments ((k, v) # kvs) =
     (case k of
        YStr name \<Rightarrow>
          (if name = ''client_id'' then (F_ClientID, v) # assignments kvs
           else
             (case map_of Proxy_sections name of
                Some sec \<Rightarrow>
                  (case v of
                     YMap fs \<Rightarrow> section_assignments (section_tags sec) fs @ assignments kvs
                   | _ \<Rightarrow> assignments kvs)
              | None \<Rightarrow> assignments kvs))
      | _ \<Rightarrow> assignments kvs)"

fun apply_all :: "scalars \<Rightarrow> (field \<times> yval) list \<Rightarrow> Proxy \<Rightarrow> string + Proxy" where
  "apply_all S [] p = Inr p"
| "apply_all S ((f, v) # as) p =
     (case put S f v p of Inl err \<Rightarrow> Inl err | Inr p' \<Rightarrow> apply_all S as p')"

subsection \<open>Sample documents and the configurations they give\<close>

text \<open>The two components of what \<^verbatim>\<open>FromYAML\<close> returns (nothing is returned by a panic).\<close>

fun config_of :: "outcome \<Rightarrow> App option" where
  "config_of (Return a e) = a"
| "config_of (Panic m) = None"

fun error_of :: "outcome \<Rightarrow> error option" where
  "error_of (Return a e) = e"
| "error_of (Panic m) = None"

text \<open>
  Sample documents, as root nodes. \<open>doc_of items\<close> is the document
  \<^verbatim>\<open>{proxies: items}\<close>.
\<close>

definition doc_of :: "MapSlice \<Rightarrow> yval" where
  "doc_of items = YMap [(YStr ''proxies'', YMap items)]"

text \<open>\<^verbatim>\<open>{proxies: {prod: {kafka: {version: "0.10.1.0"}}}}\<close>, the scenario of section 8.\<close>

definition prod_block :: "(yval \<times> yval) list" where
  "prod_block = [(YStr ''kafka'', YMap [(YStr ''version'', YStr ''0.10.1.0'')])]"

definition doc_prod :: yval where
  "doc_prod = doc_of [(YStr ''prod'', YMap prod_block)]"

text \<open>\<^verbatim>\<open>{proxies: {a: {}, b: {}}}\<close>\<close>

definition doc_a_b :: yval where
  "doc_a_b = doc_of [(YStr ''a'', YMap []), (YStr ''b'', YMap [])]"

text \<open>\<^verbatim>\<open>{proxies: {"": {}, b: {}}}\<close>: the first cluster name is the empty string.\<close>

definition doc_unnamed_b :: yval where
  "doc_unnamed_b = doc_of [(YStr '''', YMap []), (YStr ''b'', YMap [])]"

text \<open>\<^verbatim>\<open>{default_cluster: b, proxies: {a: {}, b: {}}}\<close>\<close>

definition default_b_entries :: "(yval \<times> yval) list" where
  "default_b_entries =
     [(YStr ''default_cluster'', YStr ''b''),
      (YStr ''proxies'', YMap [(YStr ''a'', YMap []), (YStr ''b'', YMap [])])]"

definition doc_default_b :: yval where
  "doc_default_b = YMap default_b_entries"

text \<open>\<^verbatim>\<open>{default_cluster: x, proxies: {"": {}, c: {}}}\<close>\<close>

definition doc_default_x :: yval where
  "doc_default_x =
     YMap [(YStr ''default_cluster'', YStr ''x''),
           (YStr ''proxies'', YMap [(YStr '''', YMap []), (YStr ''c'', YMap [])])]"

text \<open>\<^verbatim>\<open>{proxies: {1: {}}}\<close> and \<^verbatim>\<open>{proxies: {true: {}}}\<close>: a key that is not a string.\<close>

definition doc_key_1 :: yval where
  "doc_key_1 = doc_of [(YInt 1, YMap [])]"

definition doc_key_true :: yval where
  "doc_key_true = doc_of [(YBool True, YMap [])]"

text \<open>
  \<^verbatim>\<open>{proxies: {prod: {consumer: {ack_timeout: 20s}}}}\<close>: the acknowledgment timeout
  equals the default registration timeout.
\<close>

definition doc_late_ack :: yval where
  "doc_late_ack =
     doc_of [(YStr ''prod'', YMap [(YStr ''consumer'', YMap [(YStr ''ack_timeout'', YInt 20000000000)])])]"

text \<open>The same with \<^verbatim>\<open>kafka: {version: "9.9.9"}\<close> as well.\<close>

definition doc_late_ack_bad_version :: yval where
  "doc_late_ack_bad_version =
     doc_of [(YStr ''prod'',
              YMap [(YStr ''kafka'', YMap [(YStr ''version'', YStr ''9.9.9'')]),
                    (YStr ''consumer'', YMap [(YStr ''ack_timeout'', YInt 20000000000)])])]"

text \<open>\<^verbatim>\<open>{proxies: {a: {}, b: {producer: {retry_max: many}}}}\<close>: a field that does not decode.\<close>

definition doc_bad_retry_max :: yval where
  "doc_bad_retry_max =
     doc_of [(YStr ''a'', YMap []),
             (YStr ''b'', YMap [(YStr ''producer'', YMap [(YStr ''retry_max'', YStr ''many'')])])]"

text \<open>\<^verbatim>\<open>{proxies: {a: {producer: {retry_max: 0}}}}\<close>: a field that does not validate.\<close>

definition doc_zero_retry_max :: yval where
  "doc_zero_retry_max =
     doc_of [(YStr ''a'', YMap [(YStr ''producer'', YMap [(YStr ''retry_max'', YInt 0)])])]"

text \<open>
  \<^verbatim>\<open>{proxies: {a: {zoo_keeper: ~}}}\<close>: a section with nothing in it, and
  \<^verbatim>\<open>{proxies: {a: ~}}\<close>: a block with nothing in it.
\<close>

definition zoo_keeper_null_block :: "(yval \<times> yval) list" where
  "zoo_keeper_null_block = [(YStr ''zoo_keeper'', YNull)]"

definition doc_zoo_keeper_null :: yval where
  "doc_zoo_keeper_null = doc_of [(YStr ''a'', YMap zoo_keeper_null_block)]"

definition doc_block_null :: yval where
  "doc_block_null = doc_of [(YStr ''a'', YNull)]"

text \<open>\<^verbatim>\<open>{proxies: {}}\<close>: no proxy at all.\<close>

definition doc_no_proxies :: yval where
  "doc_no_proxies = doc_of []"

text \<open>The records that these documents give, written over the default record.\<close>

definition default_pixy :: Proxy where
  "default_pixy = defaultProxyWithClientID no_env ''pixy''"

definition late_ack_proxy :: Proxy where
  "late_ack_proxy =
     default_pixy\<lparr>Consumer := (Consumer default_pixy)\<lparr>Consumer_AckTimeout := 20 * Second\<rparr>\<rparr>"

definition late_ack_bad_version_proxy :: Proxy where
  "late_ack_bad_version_proxy =
     late_ack_proxy\<lparr>Kafka := (Kafka late_ack_proxy)\<lparr>Kafka_Version := ''9.9.9''\<rparr>\<rparr>"

definition ack_timeout_error :: error where
  "ack_timeout_error = New ''consumer.ack_timeout must be < consumer.registration_timeout''"

text \<open>The configurations that the loader builds from some of these documents.\<close>

definition app_prod :: App where
  "app_prod =
     newApp\<lparr>Proxies := [(''prod'', default_pixy\<lparr>Kafka := (Kafka default_pixy)\<lparr>Kafka_Version := ''0.10.1.0''\<rparr>\<rparr>)],
            DefaultCluster := ''prod''\<rparr>"

definition app_a :: App where
  "app_a = newApp\<lparr>Proxies := [(''a'', default_pixy)], DefaultCluster := ''a''\<rparr>"

definition app_zoo_keeper_null :: App where
  "app_zoo_keeper_null =
     newApp\<lparr>Proxies := [(''a'', default_pixy\<lparr>ZooKeeper := zero_ZooKeeper\<rparr>)],
            DefaultCluster := ''a''\<rparr>"

definition app_a_b :: App where
  "app_a_b = newApp\<lparr>Proxies := [(''a'', default_pixy), (''b'', default_pixy)], DefaultCluster := ''a''\<rparr>"

definition app_late_ack :: App where
  "app_late_ack = newApp\<lparr>Proxies := [(''prod'', late_ack_proxy)], DefaultCluster := ''prod''\<rparr>"

definition app_zero_retry_max :: App where
  "app_zero_retry_max =
     newApp\<lparr>Proxies := [(''a'', default_pixy\<lparr>Producer := (Producer default_pixy)\<lparr>Producer_RetryMax := 0\<rparr>\<rparr>)],
            DefaultCluster := ''a''\<rparr>"

section \<open>Properties\<close>

subsection \<open>The order of a range over a map\<close>

lemma mset_remove_nth:
  assumes "i < length xs"
  shows "mset (xs ! i # take i xs @ drop (Suc i) xs) = mset xs"
proof -
  have "mset xs = mset (take i xs @ xs ! i # drop (Suc i) xs)"
    using id_take_nth_drop [OF assms] by simp
  then show ?thesis by simp
qed

lemma mset_range_order: "mset (range_order seed xs) = mset xs"
proof (induction seed arbitrary: xs)
  case Nil
  then show ?case by simp
next
  case (Cons n ns)
  show ?case
  proof (cases "xs = []")
    case True
    then show ?thesis by simp
  next
    case False
    then have "n mod length xs < length xs" by simp
    from mset_remove_nth [OF this] Cons.IH False show ?thesis by simp
  qed
qed

lemma set_range_order: "set (range_order seed xs) = set xs"
  using mset_range_order [of seed xs] by (metis set_mset_mset)

lemma range_order_complete: "mset ys = mset xs \<Longrightarrow> \<exists>seed. range_order seed xs = ys"
proof (induction ys arbitrary: xs)
  case Nil
  then have "range_order [] xs = []" by simp
  then show ?case by blast
next
  case (Cons y ys)
  then have "y \<in> set xs" by (metis list.set_intros(1) set_mset_mset)
  then obtain i where i: "i < length xs" "xs ! i = y" by (auto simp: in_set_conv_nth)
  let ?rest = "take i xs @ drop (Suc i) xs"
  have "mset (y # ?rest) = mset (y # ys)"
    using mset_remove_nth [OF i(1)] i(2) Cons.prems by simp
  then have "mset ys = mset ?rest" by simp
  from Cons.IH [OF this] obtain seed where "range_order seed ?rest = ys" by blast
  with i have "range_order (i # seed) xs = y # ys" by auto
  then show ?case by blast
qed

subsection \<open>The validators\<close>

lemma validate_each_None:
  "(validate_each xs = None) = (\<forall>(c, p) \<in> set xs. Proxy_validate p = None)"
  by (induction xs rule: validate_each.induct) (auto split: option.splits)

lemma validate_each_Some:
  "validate_each xs = Some err \<Longrightarrow>
     \<exists>c p e. (c, p) \<in> set xs \<and> Proxy_validate p = Some e \<and>
             err = Wrap e (''invalid config, cluster='' @ c)"
  by (induction xs rule: validate_each.induct) (auto split: option.splits)

lemma App_validate_None:
  "(App_validate seed a = None) =
     (Proxies a \<noteq> [] \<and> (\<forall>(c, p) \<in> set (Proxies a). Proxy_validate p = None))"
  by (simp add: App_validate_def validate_each_None set_range_order)

lemma App_validate_Some:
  "App_validate seed a = Some err \<Longrightarrow>
     (Proxies a = [] \<and> err = New ''at least on proxy must be configured'') \<or>
     (\<exists>c p e. (c, p) \<in> set (Proxies a) \<and> Proxy_validate p = Some e \<and>
              err = Wrap e (''invalid config, cluster='' @ c))"
  using validate_each_Some [of "range_order seed (Proxies a)" err]
  by (auto simp: App_validate_def set_range_order split: if_splits)

subsection \<open>The loop of the loader\<close>

lemma merge_proxies_append:
  "merge_proxies Y getenv clientID (xs @ ys) a =
     (case merge_proxies Y getenv clientID xs a of
        Inl out \<Rightarrow> Inl out
      | Inr a' \<Rightarrow> merge_proxies Y getenv clientID ys a')"
  by (induction Y getenv clientID xs a rule: merge_proxies.induct)
     (simp_all split: yval.splits sum.splits split del: if_split)

lemma merge_proxies_Inl:
  "merge_proxies Y getenv clientID items a = Inl out \<Longrightarrow>
     (\<exists>err. out = Panic err) \<or> (\<exists>err. out = Return None (Some err))"
  by (induction Y getenv clientID items a rule: merge_proxies.induct)
     (auto split: yval.splits sum.splits)

lemma merge_proxies_DefaultCluster:
  "merge_proxies Y getenv clientID items a = Inr a' \<Longrightarrow>
     DefaultCluster a' = (if DefaultCluster a = '''' then first_named items else DefaultCluster a)"
  by (induction Y getenv clientID items a rule: merge_proxies.induct)
     (auto split: yval.splits sum.splits if_splits)

lemma merge_proxies_keys:
  "merge_proxies Y getenv clientID items a = Inr a' \<Longrightarrow>
     YStr ` fst ` set (Proxies a') = YStr ` fst ` set (Proxies a) \<union> fst ` set items"
  by (induction Y getenv clientID items a rule: merge_proxies.induct)
     (auto simp: dom_update split: yval.splits sum.splits)

lemma block_of_Cons:
  "block_of ((k, v) # items) cluster =
     (case block_of items cluster of
        Some w \<Rightarrow> Some w
      | None \<Rightarrow> if k = YStr cluster then Some v else None)"
  by (simp add: block_of_def map_add_def split: option.splits)

lemma merge_proxies_lookup:
  "merge_proxies Y getenv clientID items a = Inr a' \<Longrightarrow>
     (case block_of items cluster of
        None \<Rightarrow> map_of (Proxies a') cluster = map_of (Proxies a) cluster
      | Some v \<Rightarrow>
          (\<exists>b p. Marshal Y v = Inr b \<and>
                 Unmarshal_Proxy Y b (defaultProxyWithClientID getenv clientID) = Inr p \<and>
                 map_of (Proxies a') cluster = Some p))"
proof (induction Y getenv clientID items a rule: merge_proxies.induct)
  case (1 Y getenv clientID appCfg)
  then show ?case by (simp add: block_of_def)
next
  case (2 Y getenv clientID Key Value rest appCfg)
  from "2.prems" obtain c b p where
    Key: "Key = YStr c" and b: "Marshal Y Value = Inr b" and
    p: "Unmarshal_Proxy Y b (defaultProxyWithClientID getenv clientID) = Inr p" and
    rest: "merge_proxies Y getenv clientID rest
             (appCfg\<lparr>Proxies := AList.update c p (Proxies appCfg),
                     DefaultCluster := (if DefaultCluster appCfg = '''' then c
                                        else DefaultCluster appCfg)\<rparr>) = Inr a'"
    by (auto split: yval.splits sum.splits)
  note IH = "2.IH" [OF Key b p rest]
  show ?case
  proof (cases "block_of rest cluster")
    case None
    with IH b p show ?thesis by (auto simp: block_of_Cons Key update_conv')
  next
    case (Some w)
    with IH show ?thesis by (simp add: block_of_Cons)
  qed
qed

lemma first_named_nonempty:
  "first_named items \<noteq> '''' \<Longrightarrow> YStr (first_named items) \<in> fst ` set items"
  by (induction items rule: first_named.induct) (auto split: if_splits)

lemma first_named_empty:
  "first_named items = '''' \<Longrightarrow> fst ` set items \<subseteq> range YStr \<Longrightarrow> k \<in> fst ` set items \<Longrightarrow> k = YStr ''''"
  by (induction items rule: first_named.induct) (auto split: if_splits)

lemma first_named_key:
  assumes "items \<noteq> []" and "fst ` set items \<subseteq> range YStr"
  shows "YStr (first_named items) \<in> fst ` set items"
proof (cases "first_named items = ''''")
  case True
  from assms(1) obtain k where k: "k \<in> fst ` set items" by (cases items) auto
  with first_named_empty [OF True assms(2)] True show ?thesis by auto
next
  case False
  then show ?thesis by (rule first_named_nonempty)
qed

subsection \<open>The decoder model\<close>

lemma put_same: "put S f v p = Inr p' \<Longrightarrow> decode_at S (field_type f) v = Inr (field_value f p')"
  by (cases f) (auto split: sum.splits)

lemma put_other: "put S f v p = Inr p' \<Longrightarrow> g \<noteq> f \<Longrightarrow> field_value g p' = field_value g p"
  by (cases f; cases g; simp split: sum.splits; fastforce)

lemma apply_all_append:
  "apply_all S (xs @ ys) p =
     (case apply_all S xs p of Inl err \<Rightarrow> Inl err | Inr q \<Rightarrow> apply_all S ys q)"
  by (induction xs arbitrary: p) (auto split: sum.splits)

lemma decode_fields_apply:
  "decode_fields S tags fs p = apply_all S (section_assignments tags fs) p"
  by (induction S tags fs p rule: decode_fields.induct) (auto split: yval.splits option.splits sum.splits)

text \<open>The tag tables of the decoder and the keys of the fields say the same.\<close>

lemma Proxy_sections_key: "(map_of Proxy_sections name = Some sec) = (name = section_key sec)"
  by (cases sec) (auto simp: Proxy_sections_def)

lemma Proxy_sections_None: "(map_of Proxy_sections name = None) = (\<forall>sec. name \<noteq> section_key sec)"
proof -
  have "(map_of Proxy_sections name = None) = (\<forall>sec. map_of Proxy_sections name \<noteq> Some sec)"
    by auto
  then show ?thesis by (simp add: Proxy_sections_key)
qed

lemma section_key_inj: "(section_key sec = section_key sec') = (sec = sec')"
  by (cases sec; cases sec') simp_all

lemma section_key_not_client_id: "section_key sec \<noteq> ''client_id''"
  by (cases sec) simp_all

lemma section_tags_key:
  "(map_of (section_tags sec) name = Some f) = (field_key f = (Some sec, name))"
  by (cases sec; cases f)
     (auto simp: Kafka_tags_def ZooKeeper_tags_def Producer_tags_def Consumer_tags_def)

lemma field_key_top: "(field_key f = (None, key)) = (f = F_ClientID \<and> key = ''client_id'')"
  by (cases f) auto

lemma null_sections_Nil:
  "(null_sections kvs = []) = (\<forall>sec. (YStr (section_key sec), YNull) \<notin> set kvs)"
proof -
  have in_values: "(v \<in> set (values_in key kvs)) = ((YStr key, v) \<in> set kvs)" for v key
    by (induction kvs) (auto split: if_splits)
  have all: "(\<forall>sec. P sec) = (P S_Kafka \<and> P S_ZooKeeper \<and> P S_Producer \<and> P S_Consumer)" for P
    by (metis sect.exhaust)
  show ?thesis
    unfolding null_sections_def filter_empty_conv in_values all [of "\<lambda>sec. (YStr (section_key sec), YNull) \<notin> set kvs"]
    by simp
qed

lemma decode_Proxy_apply:
  "decode_Proxy S kvs p = Inr p' \<Longrightarrow> \<forall>sec. (YStr (section_key sec), YNull) \<notin> set kvs \<Longrightarrow>
     apply_all S (assignments kvs) p = Inr p'"
proof (induction kvs arbitrary: p)
  case Nil
  then show ?case by simp
next
  case (Cons kv kvs)
  obtain k v where kv: "kv = (k, v)" by (cases kv)
  from Cons.prems(2) have rest: "\<forall>sec. (YStr (section_key sec), YNull) \<notin> set kvs" by simp
  note IH = Cons.IH [OF _ rest]
  show ?case
  proof (cases k)
    case (YStr name)
    show ?thesis
    proof (cases "name = ''client_id''")
      case True
      with Cons.prems(1) IH YStr kv show ?thesis by (simp split: sum.splits)
    next
      case False
      show ?thesis
      proof (cases "map_of Proxy_sections name")
        case None
        with Cons.prems(1) IH YStr kv False show ?thesis by simp
      next
        case (Some sec)
        then have name: "name = section_key sec" by (simp add: Proxy_sections_key)
        with Cons.prems(2) kv YStr have "v \<noteq> YNull" by auto
        with Cons.prems(1) IH Some YStr kv False show ?thesis
          by (cases v) (simp_all add: decode_fields_apply apply_all_append split: sum.splits)
      qed
    qed
  qed (use Cons.prems(1) IH kv in simp_all)
qed

text \<open>The last node given to a field.\<close>

lemma map_of_rev_filter:
  "map_of (rev as) f =
     (if map snd (filter (\<lambda>x. fst x = f) as) = [] then None
      else Some (last (map snd (filter (\<lambda>x. fst x = f) as))))"
  by (induction as rule: rev_induct) auto

lemma section_assignments_filter:
  "map snd (filter (\<lambda>x. fst x = f) (section_assignments (section_tags sec) fs)) =
     (if fst (field_key f) = Some sec then values_in (snd (field_key f)) fs else [])"
proof (induction fs)
  case Nil
  then show ?case by simp
next
  case (Cons kv fs)
  obtain k v where kv: "kv = (k, v)" by (cases kv)
  have "map snd (filter (\<lambda>x. fst x = f) (section_assignments (section_tags sec) ((k, v) # fs))) =
     (if fst (field_key f) = Some sec then values_in (snd (field_key f)) ((k, v) # fs) else [])"
  proof (cases k)
    case (YStr name)
    have here: "(map_of (section_tags sec) name = Some f) =
                (fst (field_key f) = Some sec \<and> snd (field_key f) = name)"
      by (cases "field_key f") (simp add: section_tags_key)
    show ?thesis
    proof (cases "map_of (section_tags sec) name")
      case None
      with here Cons.IH YStr show ?thesis by auto
    next
      case (Some g)
      with here Cons.IH YStr show ?thesis by (cases "g = f") auto
    qed
  qed (use Cons.IH in simp_all)
  then show ?case by (simp only: kv)
qed

lemma assignments_filter:
  "map snd (filter (\<lambda>x. fst x = f) (assignments kvs)) = given_to kvs f"
proof (induction kvs)
  case Nil
  then show ?case by (simp add: given_to_def split: prod.splits option.splits)
next
  case (Cons kv kvs)
  obtain k v where kv: "kv = (k, v)" by (cases kv)
  obtain so key where fk: "field_key f = (so, key)" by (cases "field_key f")
  note IH = Cons.IH
  have "map snd (filter (\<lambda>x. fst x = f) (assignments ((k, v) # kvs))) = given_to ((k, v) # kvs) f"
  proof (cases k)
    case (YStr name)
    show ?thesis
    proof (cases "name = ''client_id''")
      case True
      show ?thesis
      proof (cases so)
        case None
        with fk have "f = F_ClientID" "key = ''client_id''" by (simp_all add: field_key_top)
        with IH True YStr show ?thesis by (simp add: given_to_def)
      next
        case (Some sec)
        with fk have "f \<noteq> F_ClientID" by auto
        with IH True YStr fk Some show ?thesis
          using section_key_not_client_id [of sec] by (auto simp: given_to_def)
      qed
    next
      case False
      show ?thesis
      proof (cases "map_of Proxy_sections name")
        case None
        then have no: "\<And>sec. name \<noteq> section_key sec" by (simp add: Proxy_sections_None)
        show ?thesis
        proof (cases so)
          case None': None
          with fk have "key = ''client_id''" by (simp add: field_key_top)
          with IH None None' False YStr fk show ?thesis by (simp add: given_to_def)
        next
          case (Some sec)
          with IH None False YStr fk no [of sec] show ?thesis by (simp add: given_to_def)
        qed
      next
        case (Some sec0)
        then have name: "name = section_key sec0" by (simp add: Proxy_sections_key)
        show ?thesis
        proof (cases so)
          case None
          with fk have "key = ''client_id''" by (simp add: field_key_top)
          with IH Some None False YStr fk show ?thesis
            by (cases v) (simp_all add: given_to_def section_assignments_filter)
        next
          case Some': (Some sec)
          with IH Some False YStr fk name show ?thesis
            by (cases v) (auto simp: given_to_def section_assignments_filter section_key_inj)
        qed
      qed
    qed
  qed (use IH fk in \<open>simp_all add: given_to_def split: option.splits\<close>)
  then show ?case by (simp only: kv)
qed

lemma override_of_assignments: "map_of (rev (assignments kvs)) f = override_of kvs f"
  by (simp add: map_of_rev_filter assignments_filter override_of_def)

lemma apply_all_fields:
  "apply_all S as p = Inr p' \<Longrightarrow>
     (case map_of (rev as) f of
        None \<Rightarrow> field_value f p' = field_value f p
      | Some v \<Rightarrow> decode_at S (field_type f) v = Inr (field_value f p'))"
proof (induction as arbitrary: p' rule: rev_induct)
  case Nil
  then show ?case by simp
next
  case (snoc x xs)
  obtain g v where x: "x = (g, v)" by (cases x)
  from snoc.prems obtain q where q: "apply_all S xs p = Inr q" and p': "put S g v q = Inr p'"
    by (auto simp: apply_all_append x split: sum.splits)
  show ?case
  proof (cases "f = g")
    case True
    with put_same [OF p'] show ?thesis by (simp add: x)
  next
    case False
    with put_other [OF p', of f] snoc.IH [OF q] show ?thesis
      by (simp add: x split: option.splits)
  qed
qed

subsection \<open>The checks of one proxy\<close>

lemma kafkaVersions_None: "(map_of kafkaVersions v = None) = (\<not> v \<in> supported_versions)"
  by (simp add: kafkaVersions_def supported_versions_def)

lemma compressionCodecs_None:
  "(map_of compressionCodecs v = None) = (\<not> v \<in> supported_compressions)"
  by (simp add: compressionCodecs_def supported_compressions_def)

lemma producerAcks_None: "(map_of producerAcks v = None) = (\<not> v \<in> supported_acks)"
  by (simp add: producerAcks_def supported_acks_def)

lemma if_not_swap: "(if \<not> P then a else b) = (if P then b else a)"
  by simp

lemma nonpositive_iff: "((x::int) \<le> 0) = (\<not> 0 < x)"
  by auto

lemma negative_iff: "((x::int) < 0) = (\<not> 0 \<le> x)"
  by auto

lemma ack_cond:
  "(Consumer_RegistrationTimeout c \<le> Consumer_AckTimeout c) =
   (\<not> Consumer_AckTimeout c < Consumer_RegistrationTimeout c)"
  by auto

lemma Proxy_validate_first_failing: "Proxy_validate p = first_failing spec_checks p"
  unfolding Proxy_validate_def spec_checks_def
  by (simp only: first_failing.simps kafkaVersions_None compressionCodecs_None producerAcks_None
       if_not_swap nonpositive_iff negative_iff ack_cond cong del: if_weak_cong)

lemma first_failing_append:
  "first_failing (xs @ ys) p =
     (case first_failing xs p of Some e \<Rightarrow> Some e | None \<Rightarrow> first_failing ys p)"
  by (induction xs p rule: first_failing.induct) auto

lemma first_failing_None:
  "(first_failing cs p = None) = (\<forall>(holds, err) \<in> set cs. holds p)"
  by (induction cs p rule: first_failing.induct) auto

lemma ack_check_in_spec_checks:
  "(\<lambda>p. Consumer_AckTimeout (Consumer p) < Consumer_RegistrationTimeout (Consumer p),
    \<lambda>p. ack_timeout_error) \<in> set spec_checks"
  by (simp add: spec_checks_def ack_timeout_error_def)

lemma late_ack_rejected:
  assumes "Consumer_RegistrationTimeout (Consumer p) \<le> Consumer_AckTimeout (Consumer p)"
  shows "Proxy_validate p \<noteq> None"
proof
  assume "Proxy_validate p = None"
  then have "\<forall>(holds, err) \<in> set spec_checks. holds p"
    by (simp add: Proxy_validate_first_failing first_failing_None)
  with ack_check_in_spec_checks
  have "Consumer_AckTimeout (Consumer p) < Consumer_RegistrationTimeout (Consumer p)"
    by fastforce
  with assms show False by simp
qed

lemma late_ack_error:
  assumes "Consumer_RegistrationTimeout (Consumer p) \<le> Consumer_AckTimeout (Consumer p)"
      and "earlier_checks_pass p"
  shows "Proxy_validate p = Some ack_timeout_error"
proof -
  have "first_failing (take 9 spec_checks @ drop 9 spec_checks) p =
          first_failing (drop 9 spec_checks) p"
    using assms(2) unfolding first_failing_append earlier_checks_pass_def by simp
  moreover have "first_failing (drop 9 spec_checks) p = Some ack_timeout_error"
    using assms(1) by (simp add: spec_checks_def ack_timeout_error_def)
  ultimately show ?thesis by (simp add: Proxy_validate_first_failing)
qed

subsection \<open>The loader, unfolded\<close>

lemma merge_proxies_distinct:
  "merge_proxies Y getenv clientID items a = Inr a' \<Longrightarrow> distinct (map fst (Proxies a)) \<Longrightarrow>
     distinct (map fst (Proxies a'))"
  by (induction Y getenv clientID items a rule: merge_proxies.induct)
     (auto simp: distinct_update split: yval.splits sum.splits)

lemma FromYAML_success:
  assumes "FromYAML Y getenv clientID seed data = Return (Some a) None"
  obtains prob where "Unmarshal_proxyProb Y data = Inr prob"
    and "merge_proxies Y getenv clientID (proxyProb_Proxies prob) newApp = Inr a"
    and "App_validate seed a = None"
proof -
  from assms obtain prob where prob: "Unmarshal_proxyProb Y data = Inr prob"
    by (auto simp: FromYAML_def split: sum.splits)
  with assms obtain a' where a': "merge_proxies Y getenv clientID (proxyProb_Proxies prob) newApp = Inr a'"
    using merge_proxies_Inl [of Y getenv clientID "proxyProb_Proxies prob" newApp]
    by (cases "merge_proxies Y getenv clientID (proxyProb_Proxies prob) newApp")
       (auto simp: FromYAML_def)
  with assms prob have "a' = a" "App_validate seed a = None"
    by (auto simp: FromYAML_def split: option.splits)
  with prob a' that show thesis by simp
qed

lemma FromYAML_merged:
  assumes "Unmarshal_proxyProb Y data = Inr prob"
      and "merge_proxies Y getenv clientID (proxyProb_Proxies prob) newApp = Inr a"
  shows "FromYAML Y getenv clientID seed data =
           (case App_validate seed a of
              Some err \<Rightarrow> Return None (Some (Wrap err ''invalid config parameter''))
            | None \<Rightarrow> Return (Some a) None)"
  using assms by (simp add: FromYAML_def)

lemma FromYAML_all_or_nothing:
  "FromYAML Y getenv clientID seed data = Return a e \<Longrightarrow> (a = None) \<noteq> (e = None)"
  using merge_proxies_Inl [of Y getenv clientID _ newApp]
  by (fastforce simp: FromYAML_def split: sum.splits option.splits)

lemma FromYAML_DefaultCluster:
  assumes "FromYAML Y getenv clientID seed data = Return (Some a) None"
      and "Unmarshal_proxyProb Y data = Inr prob"
  shows "DefaultCluster a = first_named (proxyProb_Proxies prob)"
proof -
  from assms(1) obtain prob' where "Unmarshal_proxyProb Y data = Inr prob'"
    and m: "merge_proxies Y getenv clientID (proxyProb_Proxies prob') newApp = Inr a"
    by (rule FromYAML_success)
  with assms(2) have "prob' = prob" by simp
  with merge_proxies_DefaultCluster [OF m] show ?thesis by (simp add: newApp_def)
qed

text \<open>
  A key that is not a string ends the loop with one and the same error, whatever the key
  is; a load that returns a configuration has met string keys only.
\<close>

lemma nonstring_key_error:
  "\<forall>c. k \<noteq> YStr c \<Longrightarrow>
     merge_proxies Y getenv clientID ((k, v) # rest) a =
       Inl (Return None (Some (New ''invalid cluster, '')))"
  by (cases k) simp_all

lemma loaded_keys_are_strings:
  assumes "FromYAML Y getenv clientID seed data = Return (Some a) None"
      and "Unmarshal_proxyProb Y data = Inr prob"
  shows "fst ` set (proxyProb_Proxies prob) \<subseteq> range YStr"
proof -
  from assms(1) obtain prob' where "Unmarshal_proxyProb Y data = Inr prob'"
    and m: "merge_proxies Y getenv clientID (proxyProb_Proxies prob') newApp = Inr a"
    by (rule FromYAML_success)
  with assms(2) have "prob' = prob" by simp
  with merge_proxies_keys [OF m]
  have "fst ` set (proxyProb_Proxies prob) = YStr ` fst ` set (Proxies a)"
    by (simp add: newApp_def)
  then show ?thesis by blast
qed

lemma decode_proxyProb_ignores:
  "decode_proxyProb (filter (\<lambda>kv. fst kv \<noteq> YStr ''default_cluster'') kvs) prob =
   decode_proxyProb kvs prob"
  by (induction kvs prob rule: decode_proxyProb.induct) (auto split: yval.splits sum.splits)

section \<open>The claims\<close>

text \<open>
  C1. The specification has every field that a proxy block does not set keep the value
  of \<^verbatim>\<open>defaultProxyWithClientID\<close>, and the comment in \<^verbatim>\<open>FromYAML\<close> gives that as
  the purpose of re-encoding and decoding each block. The code does not do it for a
  block that gives a section as null: in \<^verbatim>\<open>{proxies: {a: {zoo_keeper: ~}}}\<close> the
  block does not set \<^verbatim>\<open>zoo_keeper.seed_peers\<close>, whose default is
  \<^verbatim>\<open>[localhost:2181]\<close>, and the configuration returned has no seed peer there. For
  a block that is null itself the whole record is zero, and the load fails on its empty
  Kafka version.
\<close>

theorem null_section_loses_defaults:
  "override_of zoo_keeper_null_block F_ZooKeeper_SeedPeers = None \<and>
   field_value F_ZooKeeper_SeedPeers (defaultProxyWithClientID no_env ''pixy'') =
     V_strings [''localhost:2181''] \<and>
   FromYAML (yaml_model sample_scalars) no_env ''pixy'' [] doc_zoo_keeper_null =
     Return (Some app_zoo_keeper_null) None \<and>
   map_option (field_value F_ZooKeeper_SeedPeers) (map_of (Proxies app_zoo_keeper_null) ''a'') =
     Some (V_strings []) \<and>
   FromYAML (yaml_model sample_scalars) no_env ''pixy'' [] doc_block_null =
     Return None (Some (Wrap (Wrap (New ''Bad kafka.version: '') ''invalid config, cluster=a'')
                          ''invalid config parameter''))"
  by code_simp

text \<open>
  Where the block of a cluster gives no section as null, the merge is as the
  specification has it, for any conversion of scalars: in the configuration that
  \<^verbatim>\<open>FromYAML\<close> stores for the cluster, every field that the block does not set has the
  value of \<^verbatim>\<open>defaultProxyWithClientID\<close> (with the shared client identifier), and every
  field that it sets has the value decoded from the override. The block is the one that
  the document gives last to the cluster.
\<close>

theorem merge_preserves_untouched_defaults:
  assumes "FromYAML (yaml_model S) getenv clientID seed root = Return (Some a) None"
      and "unmarshal_proxyProb root = Inr prob"
      and "block_of (proxyProb_Proxies prob) cluster = Some (YMap kvs)"
      and "null_sections kvs = []"
  shows "\<exists>p. map_of (Proxies a) cluster = Some p \<and>
           (\<forall>f. case override_of kvs f of
                  None \<Rightarrow> field_value f p = field_value f (defaultProxyWithClientID getenv clientID)
                | Some v \<Rightarrow> decode_at S (field_type f) v = Inr (field_value f p))"
proof -
  from assms(1) obtain prob' where
    "Unmarshal_proxyProb (yaml_model S) root = Inr prob'" and
    m: "merge_proxies (yaml_model S) getenv clientID (proxyProb_Proxies prob') newApp = Inr a"
    by (rule FromYAML_success)
  with assms(2) have "prob' = prob" by (simp add: yaml_model_def)
  with merge_proxies_lookup [OF m, of cluster] assms(3) obtain b p where
    "Marshal (yaml_model S) (YMap kvs) = Inr b" and
    "Unmarshal_Proxy (yaml_model S) b (defaultProxyWithClientID getenv clientID) = Inr p" and
    p: "map_of (Proxies a) cluster = Some p"
    by auto
  then have "decode_Proxy S kvs (defaultProxyWithClientID getenv clientID) = Inr p"
    by (auto simp: yaml_model_def unmarshal_Proxy_def)
  moreover from assms(4) have "\<forall>sec. (YStr (section_key sec), YNull) \<notin> set kvs"
    by (simp add: null_sections_Nil)
  ultimately
  have "apply_all S (assignments kvs) (defaultProxyWithClientID getenv clientID) = Inr p"
    by (rule decode_Proxy_apply)
  from apply_all_fields [OF this] p show ?thesis
    unfolding override_of_assignments by blast
qed

theorem merge_preserves_untouched_defaults_witness:
  "FromYAML (yaml_model sample_scalars) no_env ''pixy'' [] doc_prod = Return (Some app_prod) None \<and>
   unmarshal_proxyProb doc_prod = Inr \<lparr>proxyProb_Proxies = [(YStr ''prod'', YMap prod_block)]\<rparr> \<and>
   block_of [(YStr ''prod'', YMap prod_block)] ''prod'' = Some (YMap prod_block) \<and>
   null_sections prod_block = [] \<and>
   override_of prod_block F_Kafka_Version = Some (YStr ''0.10.1.0'') \<and>
   override_of prod_block F_Consumer_AckTimeout = None \<and>
   (\<exists>p. map_of (Proxies app_prod) ''prod'' = Some p \<and>
        field_value F_Kafka_Version p = V_string ''0.10.1.0'' \<and>
        field_value F_Consumer_AckTimeout p = V_Duration (15 * Second))"
proof -
  have h1: "FromYAML (yaml_model sample_scalars) no_env ''pixy'' [] doc_prod = Return (Some app_prod) None"
    by code_simp
  have h2: "unmarshal_proxyProb doc_prod = Inr \<lparr>proxyProb_Proxies = [(YStr ''prod'', YMap prod_block)]\<rparr>"
    by code_simp
  have h3: "block_of (proxyProb_Proxies \<lparr>proxyProb_Proxies = [(YStr ''prod'', YMap prod_block)]\<rparr>) ''prod''
              = Some (YMap prod_block)"
    by code_simp
  have h4: "null_sections prod_block = []" by code_simp
  have o1: "override_of prod_block F_Kafka_Version = Some (YStr ''0.10.1.0'')" by code_simp
  have o2: "override_of prod_block F_Consumer_AckTimeout = None" by code_simp
  have d1: "decode_at sample_scalars (field_type F_Kafka_Version) (YStr ''0.10.1.0'') = Inr (V_string ''0.10.1.0'')"
    by code_simp
  have d2: "field_value F_Consumer_AckTimeout (defaultProxyWithClientID no_env ''pixy'') = V_Duration (15 * Second)"
    by code_simp
  from merge_preserves_untouched_defaults [OF h1 h2 h3 h4] obtain p where
    p: "map_of (Proxies app_prod) ''prod'' = Some p" and
    f: "\<And>f. case override_of prod_block f of
              None \<Rightarrow> field_value f p = field_value f (defaultProxyWithClientID no_env ''pixy'')
            | Some v \<Rightarrow> decode_at sample_scalars (field_type f) v = Inr (field_value f p)"
    by blast
  from f [of F_Kafka_Version] o1 d1 have "field_value F_Kafka_Version p = V_string ''0.10.1.0''"
    by simp
  moreover from f [of F_Consumer_AckTimeout] o2 d2
  have "field_value F_Consumer_AckTimeout p = V_Duration (15 * Second)"
    by simp
  ultimately show ?thesis using h1 h2 h3 h4 o1 o2 p by auto
qed

text \<open>
  C2, as stated, fails: a proxy whose acknowledgment timeout equals its registration
  timeout and whose Kafka version is not supported is rejected with the error of the
  version check, which names neither timeout.
\<close>

theorem ack_timeout_error_counterexample:
  "Consumer_RegistrationTimeout (Consumer late_ack_bad_version_proxy)
     \<le> Consumer_AckTimeout (Consumer late_ack_bad_version_proxy) \<and>
   Proxy_validate late_ack_bad_version_proxy = Some (New ''Bad kafka.version: 9.9.9'') \<and>
   map_option Error_msg (error_of
     (FromYAML (yaml_model sample_scalars) no_env ''pixy'' [] doc_late_ack_bad_version)) =
     Some ''invalid config parameter: invalid config, cluster=prod: Bad kafka.version: 9.9.9''"
  by code_simp

text \<open>
  C2, amended. \<^verbatim>\<open>Proxy.validate\<close> rejects every proxy configuration whose consumer
  acknowledgment timeout is greater than or equal to its registration timeout, equal
  values included. When the nine checks ordered before this one pass, the error is the
  one that names both fields. A load whose merged configuration holds such a proxy fails
  with the error of an offending cluster, wrapped with that cluster's name; it is this
  proxy's error and name when the earlier checks pass and no other cluster is invalid.
\<close>

theorem ack_timeout_rejected:
  assumes "Consumer_RegistrationTimeout (Consumer p) \<le> Consumer_AckTimeout (Consumer p)"
  shows "Proxy_validate p \<noteq> None \<and>
         (earlier_checks_pass p \<longrightarrow> Proxy_validate p = Some ack_timeout_error) \<and>
         (Unmarshal_proxyProb Y data = Inr prob \<and>
          merge_proxies Y getenv clientID (proxyProb_Proxies prob) newApp = Inr a \<and>
          (cluster, p) \<in> set (Proxies a) \<longrightarrow>
            (\<exists>c q e. (c, q) \<in> set (Proxies a) \<and> Proxy_validate q = Some e \<and>
               FromYAML Y getenv clientID seed data =
                 Return None (Some (Wrap (Wrap e (''invalid config, cluster='' @ c))
                                      ''invalid config parameter''))) \<and>
            (earlier_checks_pass p \<and>
             (\<forall>(c, q) \<in> set (Proxies a). c \<noteq> cluster \<longrightarrow> Proxy_validate q = None) \<longrightarrow>
               FromYAML Y getenv clientID seed data =
                 Return None (Some (Wrap (Wrap ack_timeout_error (''invalid config, cluster='' @ cluster))
                                      ''invalid config parameter''))))"
proof (intro conjI impI)
  show rejected: "Proxy_validate p \<noteq> None" using assms by (rule late_ack_rejected)
  show "Proxy_validate p = Some ack_timeout_error" if "earlier_checks_pass p"
    using assms that by (rule late_ack_error)
next
  assume load: "Unmarshal_proxyProb Y data = Inr prob \<and>
    merge_proxies Y getenv clientID (proxyProb_Proxies prob) newApp = Inr a \<and>
    (cluster, p) \<in> set (Proxies a)"
  then have mem: "(cluster, p) \<in> set (Proxies a)" by simp
  from load have run: "FromYAML Y getenv clientID seed data =
      (case App_validate seed a of
         Some err \<Rightarrow> Return None (Some (Wrap err ''invalid config parameter''))
       | None \<Rightarrow> Return (Some a) None)"
    by (simp add: FromYAML_merged)
  have "App_validate seed a \<noteq> None"
  proof
    assume "App_validate seed a = None"
    then have "\<forall>(c, q) \<in> set (Proxies a). Proxy_validate q = None"
      by (simp add: App_validate_None)
    with mem have "Proxy_validate p = None" by blast
    with late_ack_rejected [OF assms] show False by simp
  qed
  then obtain verr where verr: "App_validate seed a = Some verr" by auto
  from App_validate_Some [OF verr] mem obtain c q e where
    cq: "(c, q) \<in> set (Proxies a)" "Proxy_validate q = Some e"
        "verr = Wrap e (''invalid config, cluster='' @ c)"
    by auto
  with run verr show "\<exists>c q e. (c, q) \<in> set (Proxies a) \<and> Proxy_validate q = Some e \<and>
      FromYAML Y getenv clientID seed data =
        Return None (Some (Wrap (Wrap e (''invalid config, cluster='' @ c)) ''invalid config parameter''))"
    by auto
  assume only: "earlier_checks_pass p \<and>
    (\<forall>(c, q) \<in> set (Proxies a). c \<noteq> cluster \<longrightarrow> Proxy_validate q = None)"
  with cq have c: "c = cluster" by auto
  from load have "distinct (map fst (Proxies a))"
    using merge_proxies_distinct [of Y getenv clientID "proxyProb_Proxies prob" newApp a]
    by (simp add: newApp_def)
  with mem cq(1) c have "q = p" by (metis eq_key_imp_eq_value)
  with late_ack_error [OF assms] only cq(2) have "e = ack_timeout_error" by simp
  with run verr cq(3) c show "FromYAML Y getenv clientID seed data =
      Return None (Some (Wrap (Wrap ack_timeout_error (''invalid config, cluster='' @ cluster))
                           ''invalid config parameter''))"
    by simp
qed

theorem ack_timeout_rejected_witness:
  "Consumer_RegistrationTimeout (Consumer late_ack_proxy) \<le> Consumer_AckTimeout (Consumer late_ack_proxy) \<and>
   earlier_checks_pass late_ack_proxy \<and>
   Proxy_validate late_ack_proxy = Some ack_timeout_error \<and>
   Unmarshal_proxyProb (yaml_model sample_scalars) doc_late_ack =
     Inr \<lparr>proxyProb_Proxies = [(YStr ''prod'', YMap [(YStr ''consumer'', YMap [(YStr ''ack_timeout'', YInt 20000000000)])])]\<rparr> \<and>
   merge_proxies (yaml_model sample_scalars) no_env ''pixy''
     [(YStr ''prod'', YMap [(YStr ''consumer'', YMap [(YStr ''ack_timeout'', YInt 20000000000)])])] newApp =
     Inr app_late_ack \<and>
   (''prod'', late_ack_proxy) \<in> set (Proxies app_late_ack) \<and>
   FromYAML (yaml_model sample_scalars) no_env ''pixy'' [] doc_late_ack =
     Return None (Some (Wrap (Wrap ack_timeout_error ''invalid config, cluster=prod'')
                          ''invalid config parameter''))"
proof -
  let ?items = "[(YStr ''prod'', YMap [(YStr ''consumer'', YMap [(YStr ''ack_timeout'', YInt 20000000000)])])]"
  have h1: "Consumer_RegistrationTimeout (Consumer late_ack_proxy) \<le> Consumer_AckTimeout (Consumer late_ack_proxy)"
    by code_simp
  have h2: "earlier_checks_pass late_ack_proxy" by code_simp
  have h3: "Unmarshal_proxyProb (yaml_model sample_scalars) doc_late_ack = Inr \<lparr>proxyProb_Proxies = ?items\<rparr>"
    by code_simp
  have h4: "merge_proxies (yaml_model sample_scalars) no_env ''pixy''
              (proxyProb_Proxies \<lparr>proxyProb_Proxies = ?items\<rparr>) newApp = Inr app_late_ack"
    by code_simp
  have h5: "(''prod'', late_ack_proxy) \<in> set (Proxies app_late_ack)"
    by (simp add: app_late_ack_def)
  have h6: "\<forall>(c, q) \<in> set (Proxies app_late_ack). c \<noteq> ''prod'' \<longrightarrow> Proxy_validate q = None"
    by (simp add: app_late_ack_def)
  from ack_timeout_rejected [OF h1, of "yaml_model sample_scalars" doc_late_ack
      "\<lparr>proxyProb_Proxies = ?items\<rparr>" no_env "''pixy''" app_late_ack "''prod''" "[]"]
    h1 h2 h3 h4 h5 h6
  show ?thesis by simp
qed

text \<open>
  C3. The specification, and the comment on \<^verbatim>\<open>App.DefaultCluster\<close> ("the one
  mentioned in the \<^verbatim>\<open>Proxies\<close> section first is assumed"), have the default cluster
  be the first cluster name in document order. The code does not do it when that name
  is the empty string: the loop takes an empty \<^verbatim>\<open>DefaultCluster\<close> for one that is
  not set yet, and sets it again. In \<^verbatim>\<open>{proxies: {"": {}, b: {}}}\<close> the first
  cluster name is the empty string, and the load returns the default cluster \<^verbatim>\<open>b\<close>.
\<close>

theorem DefaultCluster_skips_empty_first_name:
  "unmarshal_proxyProb doc_unnamed_b =
     Inr \<lparr>proxyProb_Proxies = [(YStr '''', YMap []), (YStr ''b'', YMap [])]\<rparr> \<and>
   map_option DefaultCluster
     (config_of (FromYAML (yaml_model sample_scalars) no_env ''pixy'' [] doc_unnamed_b)) = Some ''b''"
  by code_simp

text \<open>
  What the loop computes, for every YAML library and every iteration order of the
  validator's range over the map: the first cluster name in document order that is not
  the empty string (the empty string if there is none), so the first cluster name
  whenever that name is not empty.
\<close>

theorem DefaultCluster_first_named:
  assumes "FromYAML Y getenv clientID seed data = Return (Some a) None"
      and "Unmarshal_proxyProb Y data = Inr prob"
  shows "DefaultCluster a = first_named (proxyProb_Proxies prob) \<and>
         (\<forall>c v rest. proxyProb_Proxies prob = (YStr c, v) # rest \<and> c \<noteq> '''' \<longrightarrow> DefaultCluster a = c)"
proof -
  have "DefaultCluster a = first_named (proxyProb_Proxies prob)"
    using assms by (rule FromYAML_DefaultCluster)
  then show ?thesis by auto
qed

theorem DefaultCluster_first_named_witness:
  "FromYAML (yaml_model sample_scalars) no_env ''pixy'' [1, 0] doc_a_b = Return (Some app_a_b) None \<and>
   Unmarshal_proxyProb (yaml_model sample_scalars) doc_a_b =
     Inr \<lparr>proxyProb_Proxies = [(YStr ''a'', YMap []), (YStr ''b'', YMap [])]\<rparr> \<and>
   range_order [1, 0] (Proxies app_a_b) = [(''b'', default_pixy), (''a'', default_pixy)] \<and>
   DefaultCluster app_a_b = ''a''"
proof -
  have h1: "FromYAML (yaml_model sample_scalars) no_env ''pixy'' [1, 0] doc_a_b = Return (Some app_a_b) None"
    by code_simp
  have h2: "Unmarshal_proxyProb (yaml_model sample_scalars) doc_a_b =
              Inr \<lparr>proxyProb_Proxies = [(YStr ''a'', YMap []), (YStr ''b'', YMap [])]\<rparr>"
    by code_simp
  have h3: "range_order [1, 0] (Proxies app_a_b) = [(''b'', default_pixy), (''a'', default_pixy)]"
    by code_simp
  from DefaultCluster_first_named [OF h1 h2] h1 h2 h3 show ?thesis by simp
qed

text \<open>
  C4. \<^verbatim>\<open>Proxy.validate\<close> tries its checks in the order in which section 4.4 lists them
  and returns the error of the first one that fails, and only that one.
\<close>

theorem Proxy_validate_first_violation: "Proxy_validate p = first_violation p"
  by (simp add: first_violation_def Proxy_validate_first_failing)

theorem Proxy_validate_first_violation_witness:
  "Proxy_validate late_ack_bad_version_proxy = first_violation late_ack_bad_version_proxy \<and>
   first_violation late_ack_bad_version_proxy = Some (New ''Bad kafka.version: 9.9.9'') \<and>
   first_violation default_pixy = None"
proof -
  have "first_violation late_ack_bad_version_proxy = Some (New ''Bad kafka.version: 9.9.9'')"
    by code_simp
  moreover have "first_violation default_pixy = None" by code_simp
  ultimately show ?thesis
    using Proxy_validate_first_violation [of late_ack_bad_version_proxy] by simp
qed

text \<open>
  C5. \<^verbatim>\<open>defaultProxyWithClientID\<close> sets the Kafka version to the value of the
  environment variable exactly when that value is one of the six supported versions, and
  to the constant \<^verbatim>\<open>0.8.2.2\<close> for every other value, the empty string of an unset
  variable included.
\<close>

theorem default_version_from_environment:
  "Kafka_Version (Kafka (defaultProxyWithClientID getenv clientID)) =
     (if getenv ''KAFKA_VERSION'' \<in> supported_versions then getenv ''KAFKA_VERSION''
      else ''0.8.2.2'')"
  by (simp add: defaultProxyWithClientID_def Let_def defaultKafkaVersion_def kafkaVersions_None)

theorem default_version_from_environment_witness:
  "Kafka_Version (Kafka (defaultProxyWithClientID (\<lambda>name. ''0.10.1.0'') ''pixy'')) = ''0.10.1.0'' \<and>
   Kafka_Version (Kafka (defaultProxyWithClientID (\<lambda>name. ''0.11.0.0'') ''pixy'')) = ''0.8.2.2'' \<and>
   Kafka_Version (Kafka (defaultProxyWithClientID no_env ''pixy'')) = ''0.8.2.2''"
  using default_version_from_environment [of "\<lambda>name. ''0.10.1.0''" "''pixy''"]
        default_version_from_environment [of "\<lambda>name. ''0.11.0.0''" "''pixy''"]
        default_version_from_environment [of no_env "''pixy''"]
  by (simp add: supported_versions_def no_env_def)

text \<open>
  C6. For every client identifier and every environment, the record that
  \<^verbatim>\<open>defaultProxyWithClientID\<close> builds passes \<^verbatim>\<open>Proxy.validate\<close> as it is.
\<close>

theorem default_proxy_valid: "Proxy_validate (defaultProxyWithClientID getenv clientID) = None"
  by (simp add: Proxy_validate_def defaultProxyWithClientID_def Let_def defaultKafkaVersion_def
        defaultCompression_def defaultRequiredAcks_def kafkaVersions_def compressionCodecs_def
        producerAcks_def Second_def Millisecond_def)

theorem default_proxy_valid_witness:
  "Proxy_validate default_pixy = None \<and>
   Proxy_validate (defaultProxyWithClientID (\<lambda>name. ''0.9.0.1'') ''pixy_host_2026-11-01T00.00.00Z_1'') = None"
  using default_proxy_valid [of no_env "''pixy''"]
        default_proxy_valid [of "\<lambda>name. ''0.9.0.1''" "''pixy_host_2026-11-01T00.00.00Z_1''"]
  by (simp add: default_pixy_def)

text \<open>
  C7. A key of the proxies mapping that is not a string: the specification has the load
  rejected with an error that names the key. The code rejects the load, but its error
  is the same whatever the key is, and the text of the error does not contain the key:
  \<^verbatim>\<open>Errorf\<close> is given \<^verbatim>\<open>cluster\<close>, the empty string left by the failed type
  assertion, where the key \<^verbatim>\<open>proxyItem.Key\<close> was meant.
\<close>

theorem invalid_cluster_error_omits_key:
  "FromYAML (yaml_model sample_scalars) no_env ''pixy'' [] doc_key_1 =
     Return None (Some (New ''invalid cluster, '')) \<and>
   FromYAML (yaml_model sample_scalars) no_env ''pixy'' [] doc_key_true =
     Return None (Some (New ''invalid cluster, '')) \<and>
   Error_msg (New ''invalid cluster, '') = ''invalid cluster, ''"
  by code_simp

text \<open>
  C8, as stated, fails: validation of \<^verbatim>\<open>{proxies: {}}\<close> fails, and the error that
  the caller receives is wrapped with no cluster name; there is no cluster in it.
\<close>

theorem empty_mapping_error_counterexample:
  "unmarshal_proxyProb doc_no_proxies = Inr \<lparr>proxyProb_Proxies = []\<rparr> \<and>
   App_validate [] newApp = Some (New ''at least on proxy must be configured'') \<and>
   FromYAML (yaml_model sample_scalars) no_env ''pixy'' [] doc_no_proxies =
     Return None (Some (Wrap (New ''at least on proxy must be configured'')
                          ''invalid config parameter'')) \<and>
   map_option Error_msg
     (error_of (FromYAML (yaml_model sample_scalars) no_env ''pixy'' [] doc_no_proxies)) =
     Some ''invalid config parameter: at least on proxy must be configured''"
  by code_simp

text \<open>
  C8, amended. \<^verbatim>\<open>FromYAML\<close> is all-or-nothing, for every YAML library: whenever it
  returns, exactly one of the configuration and the error is \<^verbatim>\<open>nil\<close>. When the loop
  reaches a block whose decode onto the default record fails, the load returns no
  configuration and the decoder's error wrapped with that cluster's name. When
  validation of the merged configuration fails, the load returns no configuration and
  the validator's error wrapped: the error of an invalid proxy wrapped with its
  cluster's name, or, for an empty proxies mapping, an error that names no cluster.
\<close>

theorem FromYAML_all_or_nothing_error:
  "(FromYAML Y getenv clientID seed data = Return cfg e \<longrightarrow> (cfg = None) \<noteq> (e = None)) \<and>
   (Unmarshal_proxyProb Y data = Inr prob \<and>
    proxyProb_Proxies prob = pre @ (YStr cluster, v) # post \<and>
    merge_proxies Y getenv clientID pre newApp = Inr a0 \<and>
    Marshal Y v = Inr b \<and>
    Unmarshal_Proxy Y b (defaultProxyWithClientID getenv clientID) = Inl err \<longrightarrow>
      FromYAML Y getenv clientID seed data =
        Return None (Some (Wrap (External err) (''failed to parse proxy config, cluster='' @ cluster)))) \<and>
   (Unmarshal_proxyProb Y data = Inr prob \<and>
    merge_proxies Y getenv clientID (proxyProb_Proxies prob) newApp = Inr a \<and>
    App_validate seed a = Some verr \<longrightarrow>
      FromYAML Y getenv clientID seed data =
        Return None (Some (Wrap verr ''invalid config parameter'')) \<and>
      ((Proxies a = [] \<and> verr = New ''at least on proxy must be configured'') \<or>
       (\<exists>c p perr. (c, p) \<in> set (Proxies a) \<and> Proxy_validate p = Some perr \<and>
          verr = Wrap perr (''invalid config, cluster='' @ c))))"
proof (intro conjI impI)
  assume "FromYAML Y getenv clientID seed data = Return cfg e"
  then show "(cfg = None) \<noteq> (e = None)" by (rule FromYAML_all_or_nothing)
next
  assume h: "Unmarshal_proxyProb Y data = Inr prob \<and>
    proxyProb_Proxies prob = pre @ (YStr cluster, v) # post \<and>
    merge_proxies Y getenv clientID pre newApp = Inr a0 \<and>
    Marshal Y v = Inr b \<and>
    Unmarshal_Proxy Y b (defaultProxyWithClientID getenv clientID) = Inl err"
  then have "merge_proxies Y getenv clientID (proxyProb_Proxies prob) newApp =
      Inl (Return None (Some (Wrap (External err) (''failed to parse proxy config, cluster='' @ cluster))))"
    by (simp add: merge_proxies_append)
  with h show "FromYAML Y getenv clientID seed data =
      Return None (Some (Wrap (External err) (''failed to parse proxy config, cluster='' @ cluster)))"
    by (simp add: FromYAML_def)
next
  assume h: "Unmarshal_proxyProb Y data = Inr prob \<and>
    merge_proxies Y getenv clientID (proxyProb_Proxies prob) newApp = Inr a \<and>
    App_validate seed a = Some verr"
  then show "FromYAML Y getenv clientID seed data =
      Return None (Some (Wrap verr ''invalid config parameter''))"
    by (simp add: FromYAML_def)
  from h have "App_validate seed a = Some verr" by simp
  then show "(Proxies a = [] \<and> verr = New ''at least on proxy must be configured'') \<or>
       (\<exists>c p perr. (c, p) \<in> set (Proxies a) \<and> Proxy_validate p = Some perr \<and>
          verr = Wrap perr (''invalid config, cluster='' @ c))"
    by (rule App_validate_Some)
qed

theorem FromYAML_all_or_nothing_error_witness:
  "Unmarshal_proxyProb (yaml_model sample_scalars) doc_bad_retry_max =
     Inr \<lparr>proxyProb_Proxies =
       [(YStr ''a'', YMap [])] @
       (YStr ''b'', YMap [(YStr ''producer'', YMap [(YStr ''retry_max'', YStr ''many'')])]) # []\<rparr> \<and>
   merge_proxies (yaml_model sample_scalars) no_env ''pixy'' [(YStr ''a'', YMap [])] newApp = Inr app_a \<and>
   Unmarshal_Proxy (yaml_model sample_scalars)
     (YMap [(YStr ''producer'', YMap [(YStr ''retry_max'', YStr ''many'')])])
     (defaultProxyWithClientID no_env ''pixy'') = Inl ''cannot unmarshal into int'' \<and>
   FromYAML (yaml_model sample_scalars) no_env ''pixy'' [] doc_bad_retry_max =
     Return None (Some (Wrap (External ''cannot unmarshal into int'')
                          ''failed to parse proxy config, cluster=b'')) \<and>
   Unmarshal_proxyProb (yaml_model sample_scalars) doc_zero_retry_max =
     Inr \<lparr>proxyProb_Proxies =
       [(YStr ''a'', YMap [(YStr ''producer'', YMap [(YStr ''retry_max'', YInt 0)])])]\<rparr> \<and>
   merge_proxies (yaml_model sample_scalars) no_env ''pixy''
     [(YStr ''a'', YMap [(YStr ''producer'', YMap [(YStr ''retry_max'', YInt 0)])])] newApp =
     Inr app_zero_retry_max \<and>
   App_validate [] app_zero_retry_max =
     Some (Wrap (New ''producer.retry_max must be > 0'') ''invalid config, cluster=a'') \<and>
   FromYAML (yaml_model sample_scalars) no_env ''pixy'' [] doc_zero_retry_max =
     Return None (Some (Wrap (Wrap (New ''producer.retry_max must be > 0'') ''invalid config, cluster=a'')
                          ''invalid config parameter''))"
proof -
  let ?Y = "yaml_model sample_scalars"
  let ?bad = "YMap [(YStr ''producer'', YMap [(YStr ''retry_max'', YStr ''many'')])]"
  let ?zero = "[(YStr ''a'', YMap [(YStr ''producer'', YMap [(YStr ''retry_max'', YInt 0)])])]"
  let ?prob1 = "\<lparr>proxyProb_Proxies = [(YStr ''a'', YMap [])] @ (YStr ''b'', ?bad) # []\<rparr>"
  let ?prob2 = "\<lparr>proxyProb_Proxies = ?zero\<rparr>"
  have d1: "Unmarshal_proxyProb ?Y doc_bad_retry_max = Inr ?prob1" by code_simp
  have d2: "proxyProb_Proxies ?prob1 = [(YStr ''a'', YMap [])] @ (YStr ''b'', ?bad) # []" by simp
  have d3: "merge_proxies ?Y no_env ''pixy'' [(YStr ''a'', YMap [])] newApp = Inr app_a" by code_simp
  have d4: "Marshal ?Y ?bad = Inr ?bad" by (simp add: yaml_model_def)
  have d5: "Unmarshal_Proxy ?Y ?bad (defaultProxyWithClientID no_env ''pixy'') = Inl ''cannot unmarshal into int''"
    by code_simp
  have v1: "Unmarshal_proxyProb ?Y doc_zero_retry_max = Inr ?prob2" by code_simp
  have v2: "merge_proxies ?Y no_env ''pixy'' (proxyProb_Proxies ?prob2) newApp = Inr app_zero_retry_max"
    by code_simp
  have v3: "App_validate [] app_zero_retry_max =
              Some (Wrap (New ''producer.retry_max must be > 0'') ''invalid config, cluster=a'')"
    by code_simp
  have "FromYAML ?Y no_env ''pixy'' [] doc_bad_retry_max =
          Return None (Some (Wrap (External ''cannot unmarshal into int'')
                               (''failed to parse proxy config, cluster='' @ ''b'')))"
    using FromYAML_all_or_nothing_error [of ?Y no_env "''pixy''" "[]" doc_bad_retry_max _ _ ?prob1
        "[(YStr ''a'', YMap [])]" "''b''" ?bad "[]" app_a ?bad "''cannot unmarshal into int''"]
      d1 d2 d3 d4 d5
    by blast
  moreover have "FromYAML ?Y no_env ''pixy'' [] doc_zero_retry_max =
          Return None (Some (Wrap (Wrap (New ''producer.retry_max must be > 0'') ''invalid config, cluster=a'')
                               ''invalid config parameter''))"
    using FromYAML_all_or_nothing_error [of ?Y no_env "''pixy''" "[]" doc_zero_retry_max _ _ ?prob2
        _ _ _ _ _ _ _ app_zero_retry_max
        "Wrap (New ''producer.retry_max must be > 0'') ''invalid config, cluster=a''"]
      v1 v2 v3
    by blast
  ultimately show ?thesis using d1 d3 d5 v1 v2 v3 by simp
qed

text \<open>
  C9. Every configuration that \<^verbatim>\<open>FromYAML\<close> returns, for every YAML library, has at
  least one entry in \<^verbatim>\<open>Proxies\<close> and a \<^verbatim>\<open>DefaultCluster\<close> that is a key of
  \<^verbatim>\<open>Proxies\<close>; the validator rejects a configuration whose \<^verbatim>\<open>Proxies\<close> is empty.
\<close>

theorem loaded_config_invariants:
  assumes "FromYAML Y getenv clientID seed data = Return (Some a) None"
  shows "Proxies a \<noteq> [] \<and> DefaultCluster a \<in> fst ` set (Proxies a) \<and>
         App_validate seed' (a'\<lparr>Proxies := []\<rparr>) = Some (New ''at least on proxy must be configured'')"
proof -
  from assms obtain prob where
    "Unmarshal_proxyProb Y data = Inr prob" and
    m: "merge_proxies Y getenv clientID (proxyProb_Proxies prob) newApp = Inr a" and
    v: "App_validate seed a = None"
    by (rule FromYAML_success)
  let ?items = "proxyProb_Proxies prob"
  from v have nonempty: "Proxies a \<noteq> []" by (simp add: App_validate_None)
  from merge_proxies_keys [OF m] have keys: "fst ` set ?items = YStr ` fst ` set (Proxies a)"
    by (simp add: newApp_def)
  from nonempty have "fst ` set (Proxies a) \<noteq> {}" by simp
  with keys have "?items \<noteq> []" by auto
  moreover from keys have "fst ` set ?items \<subseteq> range YStr" by blast
  ultimately have "YStr (first_named ?items) \<in> fst ` set ?items" by (rule first_named_key)
  with keys have "YStr (first_named ?items) \<in> YStr ` fst ` set (Proxies a)" by simp
  then have "first_named ?items \<in> fst ` set (Proxies a)" by blast
  moreover from merge_proxies_DefaultCluster [OF m] have "DefaultCluster a = first_named ?items"
    by (simp add: newApp_def)
  ultimately show ?thesis using nonempty by (simp add: App_validate_def)
qed

theorem loaded_config_invariants_witness:
  "FromYAML (yaml_model sample_scalars) no_env ''pixy'' [] doc_a_b = Return (Some app_a_b) None \<and>
   Proxies app_a_b \<noteq> [] \<and> DefaultCluster app_a_b \<in> fst ` set (Proxies app_a_b) \<and>
   App_validate [] (app_a_b\<lparr>Proxies := []\<rparr>) = Some (New ''at least on proxy must be configured'')"
proof -
  have h: "FromYAML (yaml_model sample_scalars) no_env ''pixy'' [] doc_a_b = Return (Some app_a_b) None"
    by code_simp
  from loaded_config_invariants [OF h, of "[]" app_a_b] h show ?thesis by simp
qed

text \<open>
  C10. A \<^verbatim>\<open>default_cluster\<close> key of the input document is ignored, and the default
  cluster returned is to be the first proxy cluster name. The code does not return that
  name when it is the empty string, which the loop takes for a default cluster that is
  not set yet: in
  \<^verbatim>\<open>{default_cluster: x, proxies: {"": {}, c: {}}}\<close> the first proxy cluster name is
  the empty string, and the load returns the default cluster \<^verbatim>\<open>c\<close>.
\<close>

theorem default_cluster_key_empty_first_name:
  "unmarshal_proxyProb doc_default_x =
     Inr \<lparr>proxyProb_Proxies = [(YStr '''', YMap []), (YStr ''c'', YMap [])]\<rparr> \<and>
   map_option DefaultCluster
     (config_of (FromYAML (yaml_model sample_scalars) no_env ''pixy'' [] doc_default_x)) = Some ''c''"
  by code_simp

text \<open>
  That the key is ignored holds for every document: the load of a document is the load
  of the document without that key, and the \<^verbatim>\<open>DefaultCluster\<close> returned is computed
  from the proxy cluster names alone, whatever the document gives for
  \<^verbatim>\<open>default_cluster\<close>. The decoding of the root onto \<^verbatim>\<open>proxyProb\<close> is the model
  \<open>unmarshal_proxyProb\<close>.
\<close>

theorem default_cluster_key_ignored:
  "FromYAML (yaml_model S) getenv clientID seed
     (YMap (filter (\<lambda>kv. fst kv \<noteq> YStr ''default_cluster'') kvs)) =
   FromYAML (yaml_model S) getenv clientID seed (YMap kvs) \<and>
   (FromYAML (yaml_model S) getenv clientID seed (YMap kvs) = Return (Some a) None \<longrightarrow>
      (\<exists>prob. unmarshal_proxyProb (YMap kvs) = Inr prob \<and>
              DefaultCluster a = first_named (proxyProb_Proxies prob)))"
proof (intro conjI impI)
  have "unmarshal_proxyProb (YMap (filter (\<lambda>kv. fst kv \<noteq> YStr ''default_cluster'') kvs)) =
        unmarshal_proxyProb (YMap kvs)"
    by (simp add: unmarshal_proxyProb_def decode_proxyProb_ignores)
  then show "FromYAML (yaml_model S) getenv clientID seed
      (YMap (filter (\<lambda>kv. fst kv \<noteq> YStr ''default_cluster'') kvs)) =
    FromYAML (yaml_model S) getenv clientID seed (YMap kvs)"
    by (simp add: FromYAML_def yaml_model_def)
next
  assume ok: "FromYAML (yaml_model S) getenv clientID seed (YMap kvs) = Return (Some a) None"
  then obtain prob where
    prob: "Unmarshal_proxyProb (yaml_model S) (YMap kvs) = Inr prob" and
    "merge_proxies (yaml_model S) getenv clientID (proxyProb_Proxies prob) newApp = Inr a" and
    "App_validate seed a = None"
    by (rule FromYAML_success)
  from FromYAML_DefaultCluster [OF ok prob] prob
  show "\<exists>prob. unmarshal_proxyProb (YMap kvs) = Inr prob \<and>
      DefaultCluster a = first_named (proxyProb_Proxies prob)"
    by (auto simp: yaml_model_def)
qed

theorem default_cluster_key_ignored_witness:
  "FromYAML (yaml_model sample_scalars) no_env ''pixy'' [] doc_default_b = Return (Some app_a_b) None \<and>
   FromYAML (yaml_model sample_scalars) no_env ''pixy'' []
     (YMap (filter (\<lambda>kv. fst kv \<noteq> YStr ''default_cluster'') default_b_entries)) =
     Return (Some app_a_b) None \<and>
   DefaultCluster app_a_b = ''a''"
proof -
  have h: "FromYAML (yaml_model sample_scalars) no_env ''pixy'' [] (YMap default_b_entries) =
             Return (Some app_a_b) None"
    by code_simp
  have p: "unmarshal_proxyProb (YMap default_b_entries) =
             Inr \<lparr>proxyProb_Proxies = [(YStr ''a'', YMap []), (YStr ''b'', YMap [])]\<rparr>"
    by code_simp
  from default_cluster_key_ignored [of sample_scalars no_env "''pixy''" "[]" default_b_entries app_a_b]
    h p
  show ?thesis by (simp add: doc_default_b_def)
qed

end
